theory Spec2Isabelle
  imports Complex_Main "HOL-Library.Word" "HOL-Library.AList" "HOL-Library.Log_Nat"
begin

section \<open>Data model\<close>

text \<open>
  The RPC server of \<^verbatim>\<open>cmd-rpc-server-car.go\<close> answers \<^verbatim>\<open>getBlock\<close> from a CAR
  archive and three indexes. Byte slices and Go strings are byte sequences; a \<open>char\<close> is
  one byte. A nil slice is the empty list. A Go \<^verbatim>\<open>int\<close> is modelled by its value (an
  \<open>int\<close>), a \<^verbatim>\<open>uint64\<close> by a 64-bit word, and the conversion \<^verbatim>\<open>uint64(x)\<close> of
  an \<^verbatim>\<open>int\<close> by \<open>word_of_int\<close>, which keeps the value modulo \<open>2 ^ 64\<close>.
\<close>

type_synonym bytes = string

type_synonym uint64 = "64 word"

datatype cid = Cid bytes

text \<open>A Go \<^verbatim>\<open>error\<close> value; only its being non-nil is ever inspected.\<close>

datatype error = Error string

text \<open>
  A Go \<^verbatim>\<open>any\<close> holding decoded JSON: \<^verbatim>\<open>nil\<close>, \<^verbatim>\<open>bool\<close>, \<^verbatim>\<open>float64\<close>,
  \<^verbatim>\<open>string\<close>, \<^verbatim>\<open>[]any\<close> or \<^verbatim>\<open>map[string]any\<close>. A map is an association list
  whose order is the order in which \<^verbatim>\<open>range\<close> visits the keys. A JSON number is
  modelled by its rational value.
\<close>

datatype json =
    JNull
  | JBool bool
  | JNum rat
  | JStr string
  | JArr "json list"
  | JObj "(string \<times> json) list"

text \<open>The nodes of \<^verbatim>\<open>ipldbindcode\<close>, with the fields the server reads.\<close>

record ipld_DataFrame =
  Data :: bytes
  Total :: int
  Next :: "cid list"

record ipld_SlotMeta =
  Parent_slot :: int
  Blocktime :: int

record ipld_Block =
  Block_Slot :: int
  Block_Entries :: "cid list"
  Block_Meta :: ipld_SlotMeta
  Block_Rewards :: cid

record ipld_Entry =
  Entry_Hash :: bytes
  Entry_Transactions :: "cid list"

record ipld_Transaction =
  Transaction_Data :: ipld_DataFrame
  Transaction_Metadata :: ipld_DataFrame
  Transaction_Slot :: int

record ipld_Rewards =
  Rewards_Data :: ipld_DataFrame

text \<open>
  \<^verbatim>\<open>solana.Transaction\<close>: the signatures and the message, of which the server reads
  the version only (\<^verbatim>\<open>MessageVersionLegacy = 0\<close>). The zero value
  \<^verbatim>\<open>solana.Transaction{}\<close> has no signature and a zero message.
\<close>

record solana_Message =
  version :: int
  content :: bytes

record solana_Transaction =
  Signatures :: "bytes list"
  Message :: solana_Message

definition zero_Transaction :: solana_Transaction where
  "zero_Transaction = \<lparr>Signatures = [], Message = \<lparr>version = 0, content = []\<rparr>\<rparr>"

definition IsVersioned :: "solana_Message \<Rightarrow> bool" where
  "IsVersioned m = (version m \<noteq> 0)"

definition GetVersion :: "solana_Message \<Rightarrow> int" where
  "GetVersion m = version m"

text \<open>
  Everything the server calls outside the two source files: the three index lookups
  (\<^verbatim>\<open>findCidFromSlot\<close>, \<^verbatim>\<open>findCidFromSignature\<close>, \<^verbatim>\<open>findOffsetFromCid\<close>), the CAR
  reader (\<^verbatim>\<open>DataReader\<close>, and \<^verbatim>\<open>Seek\<close> followed by \<^verbatim>\<open>util.ReadNode\<close> as
  \<open>ReadNodeAt\<close>), the typed node decoders, \<^verbatim>\<open>decompressZstd\<close>, the parsers for
  transactions, transaction metadata and rewards, the JSON encoder and decoder, the
  hash helpers of \<^verbatim>\<open>solana-go\<close> and the constant \<^verbatim>\<open>DummyCID\<close>. \<open>'r\<close> is the
  type of parsed rewards, \<open>'m\<close> the type of parsed transaction metadata.
\<close>

record ('r, 'm) env =
  findCidFromSlot :: "uint64 \<Rightarrow> error + cid"
  findCidFromSignature :: "bytes \<Rightarrow> error + cid"
  findOffsetFromCid :: "cid \<Rightarrow> error + uint64"
  DataReader :: "error option"
  ReadNodeAt :: "uint64 \<Rightarrow> error + cid \<times> bytes"
  DecodeBlock :: "bytes \<Rightarrow> error + ipld_Block"
  DecodeEntry :: "bytes \<Rightarrow> error + ipld_Entry"
  DecodeTransaction :: "bytes \<Rightarrow> error + ipld_Transaction"
  DecodeDataFrame :: "bytes \<Rightarrow> error + ipld_DataFrame"
  DecodeRewards :: "bytes \<Rightarrow> error + ipld_Rewards"
  decompressZstd :: "bytes \<Rightarrow> error + bytes"
  UnmarshalBin :: "bytes \<Rightarrow> error + solana_Transaction"
  ToBase64 :: "solana_Transaction \<Rightarrow> error + string"
  ParseAnyTransactionStatusMeta :: "bytes \<Rightarrow> error + 'm"
  ParseRewards :: "bytes \<Rightarrow> error + 'r"
  json_Marshal :: "'r \<Rightarrow> error + bytes"
  json_Unmarshal_map :: "bytes \<Rightarrow> error + (string \<times> json) list"
  json_Unmarshal_slice :: "bytes \<Rightarrow> error + json list"
  HashFromBytes :: "bytes \<Rightarrow> bytes"
  Hash_String :: "bytes \<Rightarrow> string"
  DummyCID :: cid

section \<open>Reading nodes from the archive\<close>

text \<open>
  \<^verbatim>\<open>GetNodeByOffset\<close>. When the CID read at the offset differs from the wanted one,
  the source logs the mismatch and executes \<^verbatim>\<open>return nil, err\<close>, where \<^verbatim>\<open>err\<close>
  is the nil error left by the successful \<^verbatim>\<open>util.ReadNode\<close>: the caller gets a nil
  slice and no error.
\<close>

definition GetNodeByOffset :: "('r, 'm) env \<Rightarrow> cid \<Rightarrow> uint64 \<Rightarrow> error + bytes" where
  "GetNodeByOffset s wantedCid offset =
     (case DataReader s of
        Some err \<Rightarrow> Inl err
      | None \<Rightarrow>
          (case ReadNodeAt s offset of
             Inl err \<Rightarrow> Inl err
           | Inr (gotCid, data) \<Rightarrow>
               if gotCid \<noteq> wantedCid then Inr [] else Inr data))"

definition GetNodeByCid :: "('r, 'm) env \<Rightarrow> cid \<Rightarrow> error + bytes" where
  "GetNodeByCid s wantedCid =
     (case findOffsetFromCid s wantedCid of
        Inl err \<Rightarrow> Inl err
      | Inr offset \<Rightarrow> GetNodeByOffset s wantedCid offset)"

definition GetBlock :: "('r, 'm) env \<Rightarrow> uint64 \<Rightarrow> error + ipld_Block" where
  "GetBlock ser slot =
     (case findCidFromSlot ser slot of
        Inl err \<Rightarrow> Inl err
      | Inr wantedCid \<Rightarrow>
          (case GetNodeByCid ser wantedCid of
             Inl err \<Rightarrow> Inl err
           | Inr data \<Rightarrow> DecodeBlock ser data))"

definition GetEntryByCid :: "('r, 'm) env \<Rightarrow> cid \<Rightarrow> error + ipld_Entry" where
  "GetEntryByCid ser wantedCid =
     (case GetNodeByCid ser wantedCid of
        Inl err \<Rightarrow> Inl err
      | Inr data \<Rightarrow> DecodeEntry ser data)"

definition GetTransactionByCid :: "('r, 'm) env \<Rightarrow> cid \<Rightarrow> error + ipld_Transaction" where
  "GetTransactionByCid ser wantedCid =
     (case GetNodeByCid ser wantedCid of
        Inl err \<Rightarrow> Inl err
      | Inr data \<Rightarrow> DecodeTransaction ser data)"

definition GetDataFrameByCid :: "('r, 'm) env \<Rightarrow> cid \<Rightarrow> error + ipld_DataFrame" where
  "GetDataFrameByCid ser wantedCid =
     (case GetNodeByCid ser wantedCid of
        Inl err \<Rightarrow> Inl err
      | Inr data \<Rightarrow> DecodeDataFrame ser data)"

definition GetRewardsByCid :: "('r, 'm) env \<Rightarrow> cid \<Rightarrow> error + ipld_Rewards" where
  "GetRewardsByCid ser wantedCid =
     (case GetNodeByCid ser wantedCid of
        Inl err \<Rightarrow> Inl err
      | Inr data \<Rightarrow> DecodeRewards ser data)"


section \<open>Frame reassembly and transaction parsing\<close>

text \<open>
  The loop that appends the continuation frames of a payload occurs three times in the
  source, with the same body: for the data and for the metadata of a transaction in
  \<^verbatim>\<open>parseTransactionAndMetaFromNode\<close>, and for the rewards in \<^verbatim>\<open>getBlock\<close>.
  \<open>appendFrames\<close> is the \<^verbatim>\<open>for _, cid := range ... .Next\<close> loop over a buffer,
  \<open>reassemble\<close> the buffer initialised with the head's data and the guard
  \<^verbatim>\<open>Total > 1\<close> around the loop.
\<close>

fun appendFrames ::
  "(cid \<Rightarrow> error + ipld_DataFrame) \<Rightarrow> cid list \<Rightarrow> bytes \<Rightarrow> error + bytes" where
  "appendFrames dataFrameGetter [] buf = Inr buf"
| "appendFrames dataFrameGetter (c # cs) buf =
     (case dataFrameGetter c of
        Inl err \<Rightarrow> Inl err
      | Inr nextDataFrame \<Rightarrow> appendFrames dataFrameGetter cs (buf @ Data nextDataFrame))"

definition reassemble ::
  "(cid \<Rightarrow> error + ipld_DataFrame) \<Rightarrow> ipld_DataFrame \<Rightarrow> error + bytes" where
  "reassemble dataFrameGetter h =
     (if Total h > 1 then appendFrames dataFrameGetter (Next h) (Data h) else Inr (Data h))"

text \<open>
  \<^verbatim>\<open>parseTransactionAndMetaFromNode\<close>. In the branch for a transaction without
  signatures the source returns \<^verbatim>\<open>solana.Transaction{}, nil, err\<close> with the
  \<^verbatim>\<open>err\<close> of the \<^verbatim>\<open>if\<close> statement, which is nil in its \<^verbatim>\<open>else\<close> branch. The
  two bare \<^verbatim>\<open>return\<close>s of the metadata block return the parsed transaction, a nil
  \<^verbatim>\<open>meta\<close> and the nil value of the unnamed error result.
\<close>

definition parseTransactionAndMetaFromNode ::
  "('r, 'm) env \<Rightarrow> (cid \<Rightarrow> error + ipld_DataFrame) \<Rightarrow> ipld_Transaction
     \<Rightarrow> error + solana_Transaction \<times> 'm option" where
  "parseTransactionAndMetaFromNode s dataFrameGetter transactionNode =
     (case reassemble dataFrameGetter (Transaction_Data transactionNode) of
        Inl err \<Rightarrow> Inl err
      | Inr transactionBuffer \<Rightarrow>
          (case UnmarshalBin s transactionBuffer of
             Inl err \<Rightarrow> Inl err
           | Inr tx \<Rightarrow>
               if length (Signatures tx) = 0 then Inr (zero_Transaction, None)
               else
                 (case reassemble dataFrameGetter (Transaction_Metadata transactionNode) of
                    Inl err \<Rightarrow> Inl err
                  | Inr metaBuffer \<Rightarrow>
                      if length metaBuffer > 0 then
                        (case decompressZstd s metaBuffer of
                           Inl err \<Rightarrow> Inr (tx, None)
                         | Inr uncompressedMeta \<Rightarrow>
                             (case ParseAnyTransactionStatusMeta s uncompressedMeta of
                                Inl err \<Rightarrow> Inr (tx, None)
                              | Inr status \<Rightarrow> Inr (tx, Some status)))
                      else Inr (tx, None))))"

section \<open>The getBlock handler\<close>

text \<open>
  A run of the handler ends in one of three ways: it calls \<^verbatim>\<open>conn.ReplyWithError\<close>
  with a code and a message, it calls \<^verbatim>\<open>conn.Reply\<close> with the response, or it
  panics (an explicit \<^verbatim>\<open>panic\<close>, a nil dereference, an index out of range, a failed
  type assertion). Replies echo the id of the request, which is left out.
\<close>

datatype panic = Panic string

datatype 'a outcome =
    RepliedWithError int string
  | Replied 'a
  | Panicked panic

definition CodeInvalidParams :: int where
  "CodeInvalidParams = - 32602"

definition CodeInternalError :: int where
  "CodeInternalError = - 32603"

record GetBlockRequest =
  Slot :: uint64

text \<open>
  Of \<^verbatim>\<open>jsonrpc2.Request\<close>: the method and \<^verbatim>\<open>Params\<close>, a pointer to the raw JSON
  that is nil when the request has no \<^verbatim>\<open>params\<close> member.
\<close>

record Request =
  Method :: string
  Params :: "bytes option"

text \<open>
  The conversions of a \<^verbatim>\<open>float64\<close> to \<^verbatim>\<open>uint64\<close> and to \<^verbatim>\<open>int\<close> discard the
  fraction. For a value outside the target's range Go leaves the result to the
  implementation; the model keeps the truncated value (modulo \<open>2 ^ 64\<close> for
  \<^verbatim>\<open>uint64\<close>).
\<close>

definition int_of_float64 :: "rat \<Rightarrow> int" where
  "int_of_float64 f = (if 0 \<le> f then \<lfloor>f\<rfloor> else \<lceil>f\<rceil>)"

definition uint64_of_float64 :: "rat \<Rightarrow> uint64" where
  "uint64_of_float64 f = word_of_int (int_of_float64 f)"

text \<open>
  \<^verbatim>\<open>parseGetBlockRequest\<close> returns a pointer and an error. It dereferences
  \<^verbatim>\<open>raw\<close> and indexes \<^verbatim>\<open>params[0]\<close> unguarded, and when the first parameter is
  not a \<^verbatim>\<open>float64\<close> it returns \<^verbatim>\<open>nil, nil\<close>: no request and no error.
\<close>

definition parseGetBlockRequest ::
  "('r, 'm) env \<Rightarrow> bytes option \<Rightarrow> panic + error + GetBlockRequest option" where
  "parseGetBlockRequest s raw =
     (case raw of
        None \<Rightarrow> Inl (Panic ''invalid memory address or nil pointer dereference'')
      | Some b \<Rightarrow>
          (case json_Unmarshal_slice s b of
             Inl err \<Rightarrow> Inr (Inl err)
           | Inr params \<Rightarrow>
               (case params of
                  [] \<Rightarrow> Inl (Panic ''index out of range [0] with length 0'')
                | p # _ \<Rightarrow>
                    (case p of
                       JNum slotRaw \<Rightarrow> Inr (Inr (Some \<lparr>Slot = uint64_of_float64 slotRaw\<rparr>))
                     | _ \<Rightarrow> Inr (Inr None)))))"

record 'm GetTransactionResponse =
  Tx_Blocktime :: "uint64 option"
  Meta :: "'m option"
  Tx_Slot :: "uint64 option"
  Transaction :: "string list"
  Version :: json

record 'm GetBlockResponse =
  BlockHeight :: uint64
  BlockTime :: "uint64 option"
  Blockhash :: string
  ParentSlot :: uint64
  PreviousBlockhash :: string
  Rewards :: json
  Transactions :: "'m GetTransactionResponse list"

definition calcBlockHeight :: "uint64 \<Rightarrow> uint64" where
  "calcBlockHeight slot = 0"

definition rentTypeToString :: "int \<Rightarrow> string" where
  "rentTypeToString typ =
     (if typ = 1 then ''Fee''
      else if typ = 2 then ''Rent''
      else if typ = 3 then ''Staking''
      else if typ = 4 then ''Voting''
      else ''Unknown'')"

text \<open>The zero value of \<^verbatim>\<open>solana.Hash\<close>, 32 zero bytes.\<close>

definition zero_Hash :: bytes where
  "zero_Hash = replicate 32 (CHR 0x00)"

subsection \<open>Entries and their transactions\<close>

text \<open>
  The inner loop over \<^verbatim>\<open>entryNode.Transactions\<close>: a transaction that cannot be
  fetched or decoded is logged and the loop \<^verbatim>\<open>continue\<close>s.
\<close>

fun appendTransactionNodes ::
  "('r, 'm) env \<Rightarrow> cid list \<Rightarrow> ipld_Transaction list \<Rightarrow> ipld_Transaction list" where
  "appendTransactionNodes ser [] allTransactionNodes = allTransactionNodes"
| "appendTransactionNodes ser (tx # txs) allTransactionNodes =
     (case GetTransactionByCid ser tx of
        Inl err \<Rightarrow> appendTransactionNodes ser txs allTransactionNodes
      | Inr txNode \<Rightarrow> appendTransactionNodes ser txs (allTransactionNodes @ [txNode]))"

text \<open>
  The loop over \<^verbatim>\<open>block.Entries\<close>. The source runs one task per entry in an
  \<^verbatim>\<open>errgroup\<close> and \<^verbatim>\<open>Wait\<close> returns an error when one of the tasks did. The
  model runs the tasks in the order of the entries, which is one of the schedules; the
  order of the collected transaction nodes depends on the schedule, the reply to a failed
  entry and the hash of the last entry do not. \<open>n\<close> is \<^verbatim>\<open>len(block.Entries)\<close>.
\<close>

fun getEntries ::
  "('r, 'm) env \<Rightarrow> int \<Rightarrow> int \<Rightarrow> cid list \<Rightarrow> ipld_Transaction list \<times> bytes
     \<Rightarrow> error + ipld_Transaction list \<times> bytes" where
  "getEntries ser n entryIndex [] st = Inr st"
| "getEntries ser n entryIndex (entryCid # entries) (allTransactionNodes, lastEntryHash) =
     (case GetEntryByCid ser entryCid of
        Inl err \<Rightarrow> Inl err
      | Inr entryNode \<Rightarrow>
          getEntries ser n (entryIndex + 1) entries
            (appendTransactionNodes ser (Entry_Transactions entryNode) allTransactionNodes,
             if entryIndex = n - 1 then HashFromBytes ser (Entry_Hash entryNode)
             else lastEntryHash))"

subsection \<open>Rewards\<close>

text \<open>
  The body of the loop over the reward elements. \<^verbatim>\<open>reward.(map[string]any)\<close> panics
  when the element is not an object.
\<close>

definition rewardAsMap_renamed :: "(string \<times> json) list \<Rightarrow> (string \<times> json) list" where
  "rewardAsMap_renamed rewardAsMap =
     (let m1 = AList.update ''commission'' JNull rewardAsMap;
          m2 = (case map_of m1 ''post_balance'' of
                  None \<Rightarrow> m1
                | Some v \<Rightarrow> AList.delete ''post_balance'' (AList.update ''postBalance'' v m1))
      in (case map_of m2 ''reward_type'' of
            None \<Rightarrow> m2
          | Some v \<Rightarrow>
              (let m3 = AList.delete ''reward_type'' (AList.update ''rewardType'' v m2)
               in (case map_of m3 ''rewardType'' of
                     Some (JNum asFloat) \<Rightarrow>
                       AList.update ''rewardType''
                         (JStr (rentTypeToString (int_of_float64 asFloat))) m3
                   | _ \<Rightarrow> m3))))"

fun rewardsLoop :: "json list \<Rightarrow> panic + json list" where
  "rewardsLoop [] = Inr []"
| "rewardsLoop (reward # rewardsAsArray) =
     (case reward of
        JObj rewardAsMap \<Rightarrow>
          (case rewardsLoop rewardsAsArray of
             Inl p \<Rightarrow> Inl p
           | Inr rs \<Rightarrow> Inr (JObj (rewardAsMap_renamed rewardAsMap) # rs))
      | _ \<Rightarrow> Inl (Panic ''interface conversion: interface {} is not map[string]interface {}''))"

text \<open>
  The rewards block of \<^verbatim>\<open>getBlock\<close>: \<open>Inl\<close> when the handler ends there, \<open>Inr\<close>
  with the value of the variable \<^verbatim>\<open>rewards\<close> (nil unless assigned) when it goes on.
\<close>

definition blockRewards ::
  "('r, 'm) env \<Rightarrow> ipld_Block \<Rightarrow> 'm GetBlockResponse outcome + json" where
  "blockRewards ser block =
     (if Block_Rewards block = DummyCID ser then Inr JNull
      else
        (case GetRewardsByCid ser (Block_Rewards block) of
           Inl err \<Rightarrow> Inl (RepliedWithError CodeInternalError ''Internal error'')
         | Inr rewardsNode \<Rightarrow>
             (case reassemble (GetDataFrameByCid ser) (Rewards_Data rewardsNode) of
                Inl err \<Rightarrow> Inl (RepliedWithError CodeInternalError ''Internal error'')
              | Inr buf \<Rightarrow>
                  (case decompressZstd ser buf of
                     Inl (Error msg) \<Rightarrow> Inl (Panicked (Panic msg))
                   | Inr uncompressedRewards \<Rightarrow>
                       (case ParseRewards ser uncompressedRewards of
                          Inl err \<Rightarrow> Inr JNull
                        | Inr actualRewards \<Rightarrow>
                            (case json_Marshal ser actualRewards of
                               Inl err \<Rightarrow>
                                 Inl (RepliedWithError CodeInternalError ''Internal error'')
                             | Inr buf' \<Rightarrow>
                                 (case json_Unmarshal_map ser buf' of
                                    Inl err \<Rightarrow>
                                      Inl (RepliedWithError CodeInternalError ''Internal error'')
                                  | Inr m \<Rightarrow>
                                      (case map_of m ''rewards'' of
                                         None \<Rightarrow> Inr JNull
                                       | Some (JArr rewardsAsArray) \<Rightarrow>
                                           (case rewardsLoop rewardsAsArray of
                                              Inl p \<Rightarrow> Inl (Panicked p)
                                            | Inr rs \<Rightarrow> Inr (JArr rs))
                                       | Some _ \<Rightarrow>
                                           Inl (Panicked (Panic
                                             ''interface conversion: interface {} is not []interface {}''))))))))))"

subsection \<open>Transactions, parent block and reply\<close>

text \<open>
  The loop over \<^verbatim>\<open>allTransactionNodes\<close>: an error of
  \<^verbatim>\<open>parseTransactionAndMetaFromNode\<close> or of \<^verbatim>\<open>tx.ToBase64\<close> ends the handler.
\<close>

fun transactionResponses ::
  "('r, 'm) env \<Rightarrow> ipld_Transaction list
     \<Rightarrow> 'm GetBlockResponse outcome + 'm GetTransactionResponse list" where
  "transactionResponses ser [] = Inr []"
| "transactionResponses ser (transactionNode # nodes) =
     (case parseTransactionAndMetaFromNode ser (GetDataFrameByCid ser) transactionNode of
        Inl err \<Rightarrow> Inl (RepliedWithError CodeInternalError ''Internal error'')
      | Inr (tx, meta) \<Rightarrow>
          (case ToBase64 ser tx of
             Inl err \<Rightarrow> Inl (RepliedWithError CodeInternalError ''Internal error'')
           | Inr b64Tx \<Rightarrow>
               (case transactionResponses ser nodes of
                  Inl out \<Rightarrow> Inl out
                | Inr allTransactions \<Rightarrow>
                    Inr (\<lparr>Tx_Blocktime = None,
                          Meta = meta,
                          Tx_Slot = None,
                          Transaction = [b64Tx, ''base64''],
                          Version =
                            (if IsVersioned (Message tx)
                             then JNum (of_int (GetVersion (Message tx) - 1))
                             else JStr ''legacy'')\<rparr>
                         # allTransactions))))"

text \<open>
  The block that fills \<^verbatim>\<open>PreviousBlockhash\<close>, the empty string when the parent slot
  is 0. \<^verbatim>\<open>parentBlock.Entries[len(parentBlock.Entries)-1]\<close> panics on a parent
  without entries.
\<close>

definition previousBlockhash ::
  "('r, 'm) env \<Rightarrow> ipld_Block \<Rightarrow> 'm GetBlockResponse outcome + string" where
  "previousBlockhash ser block =
     (let parentSlot = (word_of_int (Parent_slot (Block_Meta block)) :: uint64)
      in if parentSlot \<noteq> 0 then
           (case GetBlock ser parentSlot of
              Inl err \<Rightarrow> Inl (RepliedWithError CodeInternalError ''Internal error'')
            | Inr parentBlock \<Rightarrow>
                (case Block_Entries parentBlock of
                   [] \<Rightarrow> Inl (Panicked (Panic ''index out of range [-1]''))
                 | e # es \<Rightarrow>
                     (case GetEntryByCid ser (last (e # es)) of
                        Inl err \<Rightarrow> Inl (RepliedWithError CodeInternalError ''Internal error'')
                      | Inr parentEntryNode \<Rightarrow>
                          Inr (Hash_String ser (HashFromBytes ser (Entry_Hash parentEntryNode))))))
         else Inr [])"

text \<open>
  \<^verbatim>\<open>getBlock\<close> after the entries have been collected: the rewards, the transactions,
  the parent block, and the call of \<^verbatim>\<open>conn.Reply\<close> with the response, in the order
  of the source.
\<close>

definition assembleBlock ::
  "('r, 'm) env \<Rightarrow> ipld_Block \<Rightarrow> ipld_Transaction list \<Rightarrow> bytes
     \<Rightarrow> 'm GetBlockResponse outcome" where
  "assembleBlock ser block allTransactionNodes lastEntryHash =
     (let blocktime = (word_of_int (Blocktime (Block_Meta block)) :: uint64)
      in (case blockRewards ser block of
            Inl out \<Rightarrow> out
          | Inr rewards \<Rightarrow>
              (case transactionResponses ser allTransactionNodes of
                 Inl out \<Rightarrow> out
               | Inr allTransactions \<Rightarrow>
                   (case previousBlockhash ser block of
                      Inl out \<Rightarrow> out
                    | Inr prev \<Rightarrow>
                        Replied
                          \<lparr>BlockHeight = calcBlockHeight (word_of_int (Block_Slot block)),
                           BlockTime = Some blocktime,
                           Blockhash = Hash_String ser lastEntryHash,
                           ParentSlot = word_of_int (Parent_slot (Block_Meta block)),
                           PreviousBlockhash = prev,
                           Rewards = rewards,
                           Transactions = allTransactions\<rparr>))))"

text \<open>
  \<^verbatim>\<open>getBlock\<close>. After \<^verbatim>\<open>parseGetBlockRequest\<close> only \<^verbatim>\<open>err\<close> is tested, so
  a nil \<^verbatim>\<open>params\<close> with a nil error reaches \<^verbatim>\<open>params.Slot\<close>.
\<close>

definition getBlock ::
  "('r, 'm) env \<Rightarrow> Request \<Rightarrow> 'm GetBlockResponse outcome" where
  "getBlock ser req =
     (case parseGetBlockRequest ser (Params req) of
        Inl p \<Rightarrow> Panicked p
      | Inr (Inl err) \<Rightarrow> RepliedWithError CodeInvalidParams ''Invalid params''
      | Inr (Inr None) \<Rightarrow>
          Panicked (Panic ''invalid memory address or nil pointer dereference'')
      | Inr (Inr (Some params)) \<Rightarrow>
          (case GetBlock ser (Slot params) of
             Inl err \<Rightarrow> RepliedWithError CodeInternalError ''Failed to get block''
           | Inr block \<Rightarrow>
               (case getEntries ser (int (length (Block_Entries block))) 0
                       (Block_Entries block) ([], zero_Hash) of
                  Inl err \<Rightarrow> RepliedWithError CodeInternalError ''Internal error''
                | Inr (allTransactionNodes, lastEntryHash) \<Rightarrow>
                    assembleBlock ser block allTransactionNodes lastEntryHash)))"

section \<open>The getTransaction handler\<close>



section \<open>The reply and its key rewriting\<close>

text \<open>
  \<^verbatim>\<open>strings.ToLower\<close> on a string of one byte: an upper-case ASCII letter becomes
  lower-case, any other ASCII byte is kept, and a byte from 128 on, which is not valid
  UTF-8 alone, becomes the three bytes of U+FFFD.
\<close>

definition ToLower1 :: "char \<Rightarrow> string" where
  "ToLower1 c =
     (if (128::nat) \<le> of_char c then [char_of (0xEF::nat), char_of (0xBF::nat), char_of (0xBD::nat)]
      else if (65::nat) \<le> of_char c \<and> of_char c \<le> (90::nat) then [char_of (of_char c + (32::nat))]
      else [c])"

text \<open>
  \<^verbatim>\<open>toLowerCamelCase\<close>; \<open>ToPascalCase\<close> stands for \<^verbatim>\<open>bin.ToPascalCase\<close> of the
  library. The cases of length 1 and of greater length give the same result.
\<close>

definition toLowerCamelCase :: "(string \<Rightarrow> string) \<Rightarrow> string \<Rightarrow> string" where
  "toLowerCamelCase ToPascalCase v =
     (let pascal = ToPascalCase v
      in (case pascal of
            [] \<Rightarrow> []
          | [c] \<Rightarrow> ToLower1 c
          | c # cs \<Rightarrow> ToLower1 c @ cs))"

text \<open>
  \<^verbatim>\<open>MapToCamelCase\<close>. \<open>MapToCamelCase_loop\<close> is the \<^verbatim>\<open>range\<close> loop with
  \<^verbatim>\<open>newMap\<close> as accumulator and \<open>camelValue\<close> the value that ends up under the new
  key: an object is replaced by its conversion; the elements of an array that are objects
  are replaced in place (the slice stored in \<^verbatim>\<open>newMap\<close> shares its elements), the
  other elements, arrays among them, are left as they are; any other value is kept.
\<close>

fun MapToCamelCase_loop ::
  "(string \<Rightarrow> string) \<Rightarrow> (string \<times> json) list \<Rightarrow> (string \<times> json) list
     \<Rightarrow> (string \<times> json) list"
  and camelValue :: "(string \<Rightarrow> string) \<Rightarrow> json \<Rightarrow> json"
  and camelElements :: "(string \<Rightarrow> string) \<Rightarrow> json list \<Rightarrow> json list" where
  "MapToCamelCase_loop pc [] newMap = newMap"
| "MapToCamelCase_loop pc ((k, v) # m) newMap =
     MapToCamelCase_loop pc m (AList.update (toLowerCamelCase pc k) (camelValue pc v) newMap)"
| "camelValue pc (JObj m) = JObj (MapToCamelCase_loop pc m [])"
| "camelValue pc (JArr vs) = JArr (camelElements pc vs)"
| "camelValue pc JNull = JNull"
| "camelValue pc (JBool b) = JBool b"
| "camelValue pc (JNum f) = JNum f"
| "camelValue pc (JStr s) = JStr s"
| "camelElements pc [] = []"
| "camelElements pc (JObj m # vs) = JObj (MapToCamelCase_loop pc m []) # camelElements pc vs"
| "camelElements pc (vv # vs) = vv # camelElements pc vs"

definition MapToCamelCase ::
  "(string \<Rightarrow> string) \<Rightarrow> (string \<times> json) list \<Rightarrow> (string \<times> json) list" where
  "MapToCamelCase pc m = MapToCamelCase_loop pc m []"

text \<open>
  \<^verbatim>\<open>toMapAny\<close> marshals its argument to JSON and unmarshals the text into a
  \<^verbatim>\<open>map[string]any\<close>, where every JSON number becomes a \<^verbatim>\<open>float64\<close>. A
  \<^verbatim>\<open>uint64\<close> is written with all its decimal digits and read back as the nearest
  \<^verbatim>\<open>float64\<close>, ties to even: \<open>float64_of_int n\<close> is the value of that
  \<^verbatim>\<open>float64\<close> for an integer \<open>n\<close> from 0 below \<open>2 ^ 1024\<close>, with \<open>e\<close> the
  number of bits of \<open>n\<close> beyond the 53 of the significand.
\<close>

definition float64_of_int :: "int \<Rightarrow> int" where
  "float64_of_int n =
     (let e = nat (bitlen n - 53); q = n div 2 ^ e; r = n mod 2 ^ e
      in if 2 ^ e < 2 * r \<or> (2 * r = 2 ^ e \<and> odd q) then (q + 1) * 2 ^ e else q * 2 ^ e)"

definition json_uint64 :: "uint64 \<Rightarrow> json" where
  "json_uint64 w = JNum (of_int (float64_of_int (uint w)))"

text \<open>
  \<^verbatim>\<open>toMapAny\<close> on the two response structs, by their \<^verbatim>\<open>json\<close> tags: a field is
  a member under its tag, in the order of the fields; a nil pointer with
  \<^verbatim>\<open>omitempty\<close> is left out; a nil pointer, a nil slice and a nil \<^verbatim>\<open>any\<close>
  without it are \<^verbatim>\<open>null\<close>; strings and the values that came from JSON before come
  back as they are. \<open>metaJSON\<close> is the JSON form of the parsed metadata, which the
  sources do not fix. An error of the encoder is returned.
\<close>

definition GetTransactionResponse_toMap ::
  "('m \<Rightarrow> error + json) \<Rightarrow> 'm GetTransactionResponse \<Rightarrow> error + (string \<times> json) list" where
  "GetTransactionResponse_toMap metaJSON v =
     (case (case Meta v of None \<Rightarrow> Inr JNull | Some m \<Rightarrow> metaJSON m) of
        Inl err \<Rightarrow> Inl err
      | Inr meta \<Rightarrow>
          Inr ((case Tx_Blocktime v of None \<Rightarrow> [] | Some t \<Rightarrow> [(''blockTime'', json_uint64 t)])
               @ [(''meta'', meta)]
               @ (case Tx_Slot v of None \<Rightarrow> [] | Some t \<Rightarrow> [(''slot'', json_uint64 t)])
               @ [(''transaction'',
                   if Transaction v = [] then JNull else JArr (map JStr (Transaction v))),
                  (''version'', Version v)]))"

fun GetTransactionResponses_toMaps ::
  "('m \<Rightarrow> error + json) \<Rightarrow> 'm GetTransactionResponse list \<Rightarrow> error + json list" where
  "GetTransactionResponses_toMaps metaJSON [] = Inr []"
| "GetTransactionResponses_toMaps metaJSON (v # vs) =
     (case GetTransactionResponse_toMap metaJSON v of
        Inl err \<Rightarrow> Inl err
      | Inr m \<Rightarrow>
          (case GetTransactionResponses_toMaps metaJSON vs of
             Inl err \<Rightarrow> Inl err
           | Inr ms \<Rightarrow> Inr (JObj m # ms)))"

definition toMapAny ::
  "('m \<Rightarrow> error + json) \<Rightarrow> 'm GetBlockResponse \<Rightarrow> error + (string \<times> json) list" where
  "toMapAny metaJSON v =
     (case GetTransactionResponses_toMaps metaJSON (Transactions v) of
        Inl err \<Rightarrow> Inl err
      | Inr transactions \<Rightarrow>
          Inr [(''blockHeight'', json_uint64 (BlockHeight v)),
               (''blockTime'', case BlockTime v of None \<Rightarrow> JNull | Some t \<Rightarrow> json_uint64 t),
               (''blockhash'', JStr (Blockhash v)),
               (''parentSlot'', json_uint64 (ParentSlot v)),
               (''previousBlockhash'', JStr (PreviousBlockhash v)),
               (''rewards'', Rewards v),
               (''transactions'', if Transactions v = [] then JNull else JArr transactions)])"

text \<open>
  \<^verbatim>\<open>requestContext.Reply\<close>: \<open>toMap\<close> is \<^verbatim>\<open>toMapAny\<close> on the type of the
  result, \<open>Marshal\<close> the JSON encoder. The result is the raw JSON sent as the
  \<^verbatim>\<open>result\<close> member, or the error returned without a reply.
\<close>

definition Reply ::
  "('a \<Rightarrow> error + (string \<times> json) list) \<Rightarrow> (json \<Rightarrow> error + bytes) \<Rightarrow> (string \<Rightarrow> string)
     \<Rightarrow> 'a \<Rightarrow> ((string \<times> json) list \<Rightarrow> (string \<times> json) list) option \<Rightarrow> error + bytes" where
  "Reply toMap Marshal pc result remapCallback =
     (case toMap result of
        Inl err \<Rightarrow> Inl err
      | Inr mm \<Rightarrow>
          (let result1 = MapToCamelCase pc mm;
               result2 = (case remapCallback of None \<Rightarrow> result1 | Some f \<Rightarrow> f result1)
           in Marshal (JObj result2)))"

section \<open>Notions used in the statements\<close>

text \<open>
  The transaction nodes that can be fetched and decoded among the given CIDs, in order.
\<close>

definition decodableTransactions :: "('r, 'm) env \<Rightarrow> cid list \<Rightarrow> ipld_Transaction list" where
  "decodableTransactions ser txs =
     map projr (filter (\<lambda>r. \<not> isl r) (map (GetTransactionByCid ser) txs))"





text \<open>The strings matched by \<^verbatim>\<open>/^[a-z][a-zA-Z0-9]*$/\<close>.\<close>

definition isLower :: "char \<Rightarrow> bool" where
  "isLower c = ((97::nat) \<le> of_char c \<and> of_char c \<le> (122::nat))"




section \<open>A sample archive\<close>

text \<open>
  A small archive for evaluating the handler. The block of slot 5 has two entries and
  three transactions, of which the second (\<open>T2\<close>) does not decode, and rewards in two
  frames; its parent, the block of slot 4, has one entry and no rewards. The index also
  sends the CID \<open>X1\<close> to the offset of \<open>T1\<close>. Signatures and encodings are
  shortened; \<open>Hash_String\<close> stands for the base58 encoding.
\<close>

definition block5 :: ipld_Block where
  "block5 =
     \<lparr>Block_Slot = 5, Block_Entries = [Cid ''E1'', Cid ''E2''],
      Block_Meta = \<lparr>Parent_slot = 4, Blocktime = - 1\<rparr>,
      Block_Rewards = Cid ''R5''\<rparr>"

definition block4 :: ipld_Block where
  "block4 =
     \<lparr>Block_Slot = 4, Block_Entries = [Cid ''E0''],
      Block_Meta = \<lparr>Parent_slot = 0, Blocktime = 1600000000\<rparr>,
      Block_Rewards = Cid ''dummy''\<rparr>"

definition entry0 :: ipld_Entry where
  "entry0 =
     \<lparr>Entry_Hash = ''00000000000000000000000000000000'', Entry_Transactions = []\<rparr>"

definition entry1 :: ipld_Entry where
  "entry1 =
     \<lparr>Entry_Hash = ''11111111111111111111111111111111'',
      Entry_Transactions = [Cid ''T1'', Cid ''T2'']\<rparr>"

definition entry2 :: ipld_Entry where
  "entry2 =
     \<lparr>Entry_Hash = ''22222222222222222222222222222222'',
      Entry_Transactions = [Cid ''T3'']\<rparr>"

definition transaction1 :: ipld_Transaction where
  "transaction1 =
     \<lparr>Transaction_Data = \<lparr>Data = ''raw1'', Total = 1, Next = []\<rparr>,
      Transaction_Metadata = \<lparr>Data = [], Total = 1, Next = []\<rparr>,
      Transaction_Slot = 5\<rparr>"

definition transaction3 :: ipld_Transaction where
  "transaction3 =
     \<lparr>Transaction_Data = \<lparr>Data = ''raw3'', Total = 1, Next = []\<rparr>,
      Transaction_Metadata = \<lparr>Data = ''zmeta3'', Total = 1, Next = []\<rparr>,
      Transaction_Slot = 5\<rparr>"

text \<open>A transaction node whose data parses to a transaction without signatures.\<close>

definition transaction0 :: ipld_Transaction where
  "transaction0 =
     \<lparr>Transaction_Data = \<lparr>Data = ''raw0'', Total = 1, Next = []\<rparr>,
      Transaction_Metadata = \<lparr>Data = [], Total = 1, Next = []\<rparr>,
      Transaction_Slot = 5\<rparr>"

definition rewards5 :: ipld_Rewards where
  "rewards5 = \<lparr>Rewards_Data = \<lparr>Data = ''zhead'', Total = 2, Next = [Cid ''F1'']\<rparr>\<rparr>"

definition frame1 :: ipld_DataFrame where
  "frame1 = \<lparr>Data = ''-tail'', Total = 2, Next = []\<rparr>"

definition archive :: "(string, string) env" where
  "archive =
     \<lparr>findCidFromSlot =
        (\<lambda>slot. if slot = 5 then Inr (Cid ''B5'')
                else if slot = 4 then Inr (Cid ''B4'')
                else Inl (Error ''not found'')),
      findCidFromSignature =
        (\<lambda>sig. if sig = ''sig1'' then Inr (Cid ''T1'') else Inl (Error ''not found'')),
      findOffsetFromCid =
        (\<lambda>c. case map_of
                 [(Cid ''B5'', 0), (Cid ''E1'', 1), (Cid ''E2'', 2), (Cid ''T1'', 3),
                  (Cid ''T2'', 4), (Cid ''T3'', 5), (Cid ''R5'', 6), (Cid ''F1'', 7),
                  (Cid ''B4'', 8), (Cid ''E0'', 9), (Cid ''X1'', 3)] c of
               None \<Rightarrow> Inl (Error ''not found'')
             | Some offset \<Rightarrow> Inr offset),
      DataReader = None,
      ReadNodeAt =
        (\<lambda>offset. case map_of
                 [(0, (Cid ''B5'', ''block5'')), (1, (Cid ''E1'', ''entry1'')),
                  (2, (Cid ''E2'', ''entry2'')), (3, (Cid ''T1'', ''tx1'')),
                  (4, (Cid ''T2'', ''garbage'')), (5, (Cid ''T3'', ''tx3'')),
                  (6, (Cid ''R5'', ''rewards5'')), (7, (Cid ''F1'', ''frame1'')),
                  (8, (Cid ''B4'', ''block4'')), (9, (Cid ''E0'', ''entry0''))] offset of
               None \<Rightarrow> Inl (Error ''unexpected EOF'')
             | Some node \<Rightarrow> Inr node),
      DecodeBlock =
        (\<lambda>data. if data = ''block5'' then Inr block5
                 else if data = ''block4'' then Inr block4
                 else Inl (Error ''not a Block'')),
      DecodeEntry =
        (\<lambda>data. if data = ''entry1'' then Inr entry1
                 else if data = ''entry2'' then Inr entry2
                 else if data = ''entry0'' then Inr entry0
                 else Inl (Error ''not an Entry'')),
      DecodeTransaction =
        (\<lambda>data. if data = ''tx1'' then Inr transaction1
                 else if data = ''tx3'' then Inr transaction3
                 else Inl (Error ''not a Transaction'')),
      DecodeDataFrame =
        (\<lambda>data. if data = ''frame1'' then Inr frame1
                 else Inl (Error ''not a DataFrame'')),
      DecodeRewards =
        (\<lambda>data. if data = ''rewards5'' then Inr rewards5
                 else Inl (Error ''not a Rewards'')),
      decompressZstd =
        (\<lambda>data. if data = ''zhead-tail'' then Inr ''rewards-protobuf''
                 else if data = ''zmeta3'' then Inr ''meta3''
                 else Inl (Error ''invalid input'')),
      UnmarshalBin =
        (\<lambda>data. if data = ''raw1'' then
                   Inr \<lparr>Signatures = [''sig1''], Message = \<lparr>version = 0, content = ''m1''\<rparr>\<rparr>
                 else if data = ''raw0'' then
                   Inr \<lparr>Signatures = [], Message = \<lparr>version = 1, content = ''m0''\<rparr>\<rparr>
                 else if data = ''raw3'' then
                   Inr \<lparr>Signatures = [''sig3''], Message = \<lparr>version = 1, content = ''m3''\<rparr>\<rparr>
                 else Inl (Error ''unexpected EOF'')),
      ToBase64 = (\<lambda>tx. Inr (''b64:'' @ content (Message tx))),
      ParseAnyTransactionStatusMeta =
        (\<lambda>data. if data = ''meta3'' then Inr ''status3'' else Inl (Error ''bad meta'')),
      ParseRewards =
        (\<lambda>data. if data = ''rewards-protobuf'' then Inr ''parsed''
                 else Inl (Error ''bad rewards'')),
      json_Marshal = (\<lambda>r. Inr (''json:'' @ r)),
      json_Unmarshal_map =
        (\<lambda>data. if data = ''json:parsed'' then
                   Inr [(''rewards'',
                         JArr [JObj [(''pubkey'', JStr ''pk''), (''lamports'', JNum 5),
                                     (''post_balance'', JNum 7), (''reward_type'', JNum 2)]])]
                 else Inl (Error ''bad json'')),
      json_Unmarshal_slice =
        (\<lambda>data. if data = ''[5]'' then Inr [JNum 5]
                 else if data = ''[4]'' then Inr [JNum 4]
                 else if data = ''[7]'' then Inr [JNum 7]
                 else if data = ''[true]'' then Inr [JBool True]
                 else if data = ''[]'' then Inr []
                 else Inl (Error ''cannot unmarshal'')),
      HashFromBytes = (\<lambda>b. take 32 b @ replicate (32 - length b) (CHR 0x00)),
      Hash_String = (\<lambda>h. ''base58:'' @ h),
      DummyCID = Cid ''dummy''\<rparr>"

text \<open>The request for slot 5 and the response the handler builds for it.\<close>

definition request5 :: Request where
  "request5 = \<lparr>Method = ''getBlock'', Params = Some ''[5]''\<rparr>"

definition response5 :: "string GetBlockResponse" where
  "response5 =
     \<lparr>BlockHeight = 0,
      BlockTime = Some 18446744073709551615,
      Blockhash = ''base58:22222222222222222222222222222222'',
      ParentSlot = 4,
      PreviousBlockhash = ''base58:00000000000000000000000000000000'',
      Rewards =
        JArr [JObj [(''pubkey'', JStr ''pk''), (''lamports'', JNum 5), (''commission'', JNull),
                    (''postBalance'', JNum 7), (''rewardType'', JStr ''Rent'')]],
      Transactions =
        [\<lparr>Tx_Blocktime = None, Meta = None, Tx_Slot = None,
          Transaction = [''b64:m1'', ''base64''], Version = JStr ''legacy''\<rparr>,
         \<lparr>Tx_Blocktime = None, Meta = Some ''status3'', Tx_Slot = None,
          Transaction = [''b64:m3'', ''base64''], Version = JNum 0\<rparr>]\<rparr>"

text \<open>
  Variants of the archive with one defect each: an entry that does not decode, a
  rewards node that does not decode, a missing continuation frame, rewards that are not
  protobuf, and parsed rewards whose JSON object has no \<open>rewards\<close> member.
\<close>

definition archive_bad_entry :: "(string, string) env" where
  "archive_bad_entry = archive\<lparr>DecodeEntry := (\<lambda>data. Inl (Error ''not an Entry''))\<rparr>"

definition archive_bad_rewards :: "(string, string) env" where
  "archive_bad_rewards = archive\<lparr>DecodeRewards := (\<lambda>data. Inl (Error ''not a Rewards''))\<rparr>"

definition archive_bad_frame :: "(string, string) env" where
  "archive_bad_frame = archive\<lparr>DecodeDataFrame := (\<lambda>data. Inl (Error ''not a DataFrame''))\<rparr>"

definition archive_legacy_rewards :: "(string, string) env" where
  "archive_legacy_rewards = archive\<lparr>ParseRewards := (\<lambda>data. Inl (Error ''not protobuf''))\<rparr>"

definition archive_no_rewards_key :: "(string, string) env" where
  "archive_no_rewards_key = archive\<lparr>json_Unmarshal_map := (\<lambda>data. Inr [])\<rparr>"



definition request4 :: Request where
  "request4 = \<lparr>Method = ''getBlock'', Params = Some ''[4]''\<rparr>"

definition response4 :: "string GetBlockResponse" where
  "response4 =
     \<lparr>BlockHeight = 0,
      BlockTime = Some 1600000000,
      Blockhash = ''base58:00000000000000000000000000000000'',
      ParentSlot = 0,
      PreviousBlockhash = [],
      Rewards = JNull,
      Transactions = []\<rparr>"

text \<open>
  The maps that \<^verbatim>\<open>toMapAny\<close> makes of the two responses, the metadata being encoded as
  a JSON string.
\<close>

definition response5_map :: "(string \<times> json) list" where
  "response5_map =
     [(''blockHeight'', JNum 0),
      (''blockTime'', JNum 18446744073709551616),
      (''blockhash'', JStr ''base58:22222222222222222222222222222222''),
      (''parentSlot'', JNum 4),
      (''previousBlockhash'', JStr ''base58:00000000000000000000000000000000''),
      (''rewards'',
       JArr [JObj [(''pubkey'', JStr ''pk''), (''lamports'', JNum 5), (''commission'', JNull),
                   (''postBalance'', JNum 7), (''rewardType'', JStr ''Rent'')]]),
      (''transactions'',
       JArr [JObj [(''meta'', JNull),
                   (''transaction'', JArr [JStr ''b64:m1'', JStr ''base64'']),
                   (''version'', JStr ''legacy'')],
             JObj [(''meta'', JStr ''status3''),
                   (''transaction'', JArr [JStr ''b64:m3'', JStr ''base64'']),
                   (''version'', JNum 0)]])]"

definition response4_map :: "(string \<times> json) list" where
  "response4_map =
     [(''blockHeight'', JNum 0),
      (''blockTime'', JNum 1600000000),
      (''blockhash'', JStr ''base58:00000000000000000000000000000000''),
      (''parentSlot'', JNum 0),
      (''previousBlockhash'', JStr []),
      (''rewards'', JNull),
      (''transactions'', JNull)]"

text \<open>
  A conversion to PascalCase for evaluating the key rewriting on keys in snake case:
  the first letter and every letter after an underscore are capitalised and the
  underscores dropped. It stands in for \<^verbatim>\<open>bin.ToPascalCase\<close>, which is not part of
  the sources; the theorems hold for any conversion.
\<close>

fun capitalizeWords :: "bool \<Rightarrow> string \<Rightarrow> string" where
  "capitalizeWords capNext [] = []"
| "capitalizeWords capNext (c # cs) =
     (if c = CHR ''_'' then capitalizeWords True cs
      else (if capNext \<and> isLower c then char_of (of_char c - (32::nat)) else c)
             # capitalizeWords False cs)"

definition snakeToPascalCase :: "string \<Rightarrow> string" where
  "snakeToPascalCase s = capitalizeWords True s"

section \<open>The CAR reader\<close>

text \<open>
  C1. A record whose CID differs from the expected one should make the read fail with a
  CID mismatch. In the sample archive the index sends \<open>X1\<close> to offset 3, where the
  record of \<open>T1\<close> lies: \<^verbatim>\<open>GetNodeByOffset\<close> does not return the payload of that
  record, but it returns no error either, only a nil slice, and so does
  \<^verbatim>\<open>GetNodeByCid\<close>.
\<close>

theorem GetNodeByOffset_cid_mismatch_returns_no_error:
  "findOffsetFromCid archive (Cid ''X1'') = Inr 3
   \<and> ReadNodeAt archive 3 = Inr (Cid ''T1'', ''tx1'')
   \<and> GetNodeByOffset archive (Cid ''X1'') 3 = Inr []
   \<and> GetNodeByCid archive (Cid ''X1'') = Inr []"
  by code_simp

section \<open>Frame reassembly\<close>

lemma appendFrames_all_fetched:
  "\<forall>c\<in>set cs. \<not> isl (g c) \<Longrightarrow>
   appendFrames g cs buf = Inr (buf @ concat (map (\<lambda>c. Data (projr (g c))) cs))"
  by (induction cs arbitrary: buf) (auto split: sum.splits)

lemma appendFrames_fetch_fails:
  "\<exists>c\<in>set cs. isl (g c) \<Longrightarrow> isl (appendFrames g cs buf)"
  by (induction cs arbitrary: buf) (auto split: sum.splits)

text \<open>
  C3, as the code has it. For a head with \<open>Total > 1\<close> the reassembly appends the data
  of every frame listed in \<open>Next\<close>, in order, and fails exactly when one of them cannot
  be fetched; the number of frames is not compared with \<open>Total\<close>.
\<close>

theorem reassemble_appends_every_next_frame:
  "1 < Total h \<Longrightarrow>
     ((\<forall>c\<in>set (Next h). \<not> isl (g c)) \<longrightarrow>
        reassemble g h = Inr (Data h @ concat (map (\<lambda>c. Data (projr (g c))) (Next h))))
     \<and> ((\<exists>c\<in>set (Next h). isl (g c)) \<longrightarrow> isl (reassemble g h))"
  by (simp add: reassemble_def appendFrames_all_fetched appendFrames_fetch_fails)

theorem reassemble_appends_every_next_frame_witness:
  "1 < Total \<lparr>Data = ''zhead'', Total = 2, Next = [Cid ''F1'']\<rparr>
   \<and> GetDataFrameByCid archive (Cid ''F1'') = Inr \<lparr>Data = ''-tail'', Total = 2, Next = []\<rparr>
   \<and> reassemble (GetDataFrameByCid archive) \<lparr>Data = ''zhead'', Total = 2, Next = [Cid ''F1'']\<rparr>
       = Inr ''zhead-tail''
   \<and> isl (reassemble (GetDataFrameByCid archive)
            \<lparr>Data = ''zhead'', Total = 2, Next = [Cid ''F1'', Cid ''F2'']\<rparr>)"
proof -
  let ?g = "GetDataFrameByCid archive"
  let ?h = "\<lparr>Data = ''zhead'', Total = 2, Next = [Cid ''F1'']\<rparr>"
  let ?h' = "\<lparr>Data = ''zhead'', Total = 2, Next = [Cid ''F1'', Cid ''F2'']\<rparr>"
  have total: "1 < Total ?h" and total': "1 < Total ?h'"
    by simp_all
  have f1: "?g (Cid ''F1'') = Inr \<lparr>Data = ''-tail'', Total = 2, Next = []\<rparr>"
    by code_simp
  have f2: "isl (?g (Cid ''F2''))"
    by code_simp
  have fetched: "\<forall>c\<in>set (Next ?h). \<not> isl (?g c)"
    by (simp add: f1)
  have "reassemble ?g ?h = Inr ''zhead-tail''"
    using reassemble_appends_every_next_frame [OF total, of ?g] fetched by (simp add: f1)
  moreover have "isl (reassemble ?g ?h')"
    using reassemble_appends_every_next_frame [OF total', of ?g] f2 by simp
  ultimately show ?thesis
    using f1 by simp
qed

text \<open>
  C3, as stated, fails: a head that declares three frames and lists one continuation is
  reassembled from two frames without an error.
\<close>

theorem reassemble_ignores_total_counterexample:
  "reassemble (GetDataFrameByCid archive) \<lparr>Data = ''zhead'', Total = 3, Next = [Cid ''F1'']\<rparr>
     = Inr ''zhead-tail''
   \<and> int (length (Next \<lparr>Data = ''zhead'', Total = 3, Next = [Cid ''F1'']\<rparr>)) + 1
     \<noteq> Total \<lparr>Data = ''zhead'', Total = 3, Next = [Cid ''F1'']\<rparr>"
  by code_simp

section \<open>Transaction parsing\<close>

text \<open>
  C4. A transaction without signatures should be refused with an error. The data
  \<open>raw0\<close> parses to a transaction with an empty signature list, and
  \<^verbatim>\<open>parseTransactionAndMetaFromNode\<close> returns the zero transaction, no metadata and
  no error for its node.
\<close>

theorem parseTransactionAndMetaFromNode_empty_signatures_no_error:
  "UnmarshalBin archive ''raw0''
     = Inr \<lparr>Signatures = [], Message = \<lparr>version = 1, content = ''m0''\<rparr>\<rparr>
   \<and> Transaction_Data transaction0 = \<lparr>Data = ''raw0'', Total = 1, Next = []\<rparr>
   \<and> parseTransactionAndMetaFromNode archive (GetDataFrameByCid archive) transaction0
     = Inr (zero_Transaction, None)"
  by code_simp

section \<open>Request parameters\<close>

text \<open>
  C6. A first parameter that is not a number should be answered with Invalid params.
  For the parameters \<^verbatim>\<open>[true]\<close> \<^verbatim>\<open>parseGetBlockRequest\<close> returns neither a request
  nor an error, and the handler panics on the nil request.
\<close>

theorem getBlock_non_numeric_slot_panics:
  "json_Unmarshal_slice archive ''[true]'' = Inr [JBool True]
   \<and> parseGetBlockRequest archive (Some ''[true]'') = Inr (Inr None)
   \<and> getBlock archive \<lparr>Method = ''getBlock'', Params = Some ''[true]''\<rparr>
     = Panicked (Panic ''invalid memory address or nil pointer dereference'')"
  by code_simp

section \<open>The stages of the handler\<close>

text \<open>
  What a run of \<^verbatim>\<open>getBlock\<close> went through when it ended in a given way, and how
  each stage ends the handler.
\<close>

lemma getBlock_Replied_stages:
  "getBlock ser req = Replied r \<Longrightarrow>
   \<exists>p block nodes h.
     parseGetBlockRequest ser (Params req) = Inr (Inr (Some p))
     \<and> GetBlock ser (Slot p) = Inr block
     \<and> getEntries ser (int (length (Block_Entries block))) 0 (Block_Entries block)
           ([], zero_Hash) = Inr (nodes, h)
     \<and> assembleBlock ser block nodes h = Replied r"
  by (auto simp: getBlock_def split: sum.splits option.splits)

lemma blockRewards_Inl:
  "blockRewards ser block = Inl out \<Longrightarrow>
   out = RepliedWithError CodeInternalError ''Internal error'' \<or> (\<exists>p. out = Panicked p)"
  by (auto simp: blockRewards_def split: if_splits sum.splits option.splits json.splits error.splits)

lemma transactionResponses_Inl:
  "transactionResponses ser nodes = Inl out \<Longrightarrow>
   out = RepliedWithError CodeInternalError ''Internal error''"
  by (induction nodes arbitrary: out) (auto split: sum.splits prod.splits)

lemma previousBlockhash_Inl:
  "previousBlockhash ser block = Inl out \<Longrightarrow>
   out = RepliedWithError CodeInternalError ''Internal error'' \<or> (\<exists>p. out = Panicked p)"
  by (auto simp: previousBlockhash_def Let_def split: if_splits sum.splits list.splits)

lemma assembleBlock_Replied:
  fixes ser :: "('r, 'm) env"
  assumes "assembleBlock ser block nodes h = Replied r"
  shows "\<exists>rewards allTransactions prev.
     blockRewards ser block = Inr rewards
     \<and> transactionResponses ser nodes = Inr allTransactions
     \<and> previousBlockhash ser block = Inr prev
     \<and> r = \<lparr>BlockHeight = calcBlockHeight (word_of_int (Block_Slot block)),
            BlockTime = Some (word_of_int (Blocktime (Block_Meta block))),
            Blockhash = Hash_String ser h,
            ParentSlot = word_of_int (Parent_slot (Block_Meta block)),
            PreviousBlockhash = prev,
            Rewards = rewards,
            Transactions = allTransactions\<rparr>"
proof (cases "blockRewards ser block")
  case (Inl out)
  with assms blockRewards_Inl [OF Inl] show ?thesis
    by (auto simp: assembleBlock_def)
next
  case rw: (Inr rewards)
  show ?thesis
  proof (cases "transactionResponses ser nodes")
    case (Inl out)
    with assms rw transactionResponses_Inl [OF Inl] show ?thesis
      by (auto simp: assembleBlock_def)
  next
    case tx: (Inr allTransactions)
    show ?thesis
    proof (cases "previousBlockhash ser block")
      case (Inl out)
      with assms rw tx previousBlockhash_Inl [OF Inl] show ?thesis
        by (auto simp: assembleBlock_def)
    next
      case (Inr prev)
      with assms rw tx show ?thesis
        by (auto simp: assembleBlock_def)
    qed
  qed
qed

lemma getEntries_lastEntryHash:
  "getEntries ser n i cs (nodes, h) = Inr (nodes', h') \<Longrightarrow> i + int (length cs) = n \<Longrightarrow>
   (cs = [] \<longrightarrow> h' = h)
   \<and> (cs \<noteq> [] \<longrightarrow>
        (\<exists>e. GetEntryByCid ser (last cs) = Inr e \<and> h' = HashFromBytes ser (Entry_Hash e)))"
proof (induction cs arbitrary: i nodes h)
  case Nil
  then show ?case by simp
next
  case (Cons c cs)
  from Cons.prems(1) obtain e where e: "GetEntryByCid ser c = Inr e"
    by (auto split: sum.splits)
  let ?nodes = "appendTransactionNodes ser (Entry_Transactions e) nodes"
  let ?h = "if i = n - 1 then HashFromBytes ser (Entry_Hash e) else h"
  from Cons.prems(1) e have run: "getEntries ser n (i + 1) cs (?nodes, ?h) = Inr (nodes', h')"
    by simp
  from Cons.prems(2) have len: "(i + 1) + int (length cs) = n"
    by simp
  note IH = Cons.IH [OF run len]
  show ?case
  proof (cases "cs = []")
    case True
    with IH Cons.prems(2) e show ?thesis by simp
  next
    case False
    with IH show ?thesis by simp
  qed
qed




lemma getBlock_entries_fail:
  assumes "parseGetBlockRequest ser (Params req) = Inr (Inr (Some p))"
    and "GetBlock ser (Slot p) = Inr block"
    and "isl (getEntries ser (int (length (Block_Entries block))) 0 (Block_Entries block)
                ([], zero_Hash))"
  shows "getBlock ser req = RepliedWithError CodeInternalError ''Internal error''"
proof -
  from assms(3) obtain err where
    "getEntries ser (int (length (Block_Entries block))) 0 (Block_Entries block)
       ([], zero_Hash) = Inl err"
    by (cases "getEntries ser (int (length (Block_Entries block))) 0 (Block_Entries block)
                 ([], zero_Hash)") simp_all
  with assms(1,2) show ?thesis
    by (simp add: getBlock_def)
qed

lemma getBlock_entries_ok:
  assumes "parseGetBlockRequest ser (Params req) = Inr (Inr (Some p))"
    and "GetBlock ser (Slot p) = Inr block"
    and "getEntries ser (int (length (Block_Entries block))) 0 (Block_Entries block)
           ([], zero_Hash) = Inr (nodes, h)"
  shows "getBlock ser req = assembleBlock ser block nodes h"
  using assms by (simp add: getBlock_def)

subsection \<open>The handler on the sample archive\<close>

lemma archive_parse5:
  "parseGetBlockRequest archive (Params request5) = Inr (Inr (Some \<lparr>Slot = 5\<rparr>))"
  by code_simp

lemma archive_GetBlock5:
  "GetBlock archive 5 = Inr block5"
  by code_simp

lemma archive_bad_entry_parse5:
  "parseGetBlockRequest archive_bad_entry (Params request5) = Inr (Inr (Some \<lparr>Slot = 5\<rparr>))"
  by code_simp

lemma archive_bad_entry_GetBlock5:
  "GetBlock archive_bad_entry 5 = Inr block5"
  by code_simp

lemma archive_bad_rewards_parse5:
  "parseGetBlockRequest archive_bad_rewards (Params request5) = Inr (Inr (Some \<lparr>Slot = 5\<rparr>))"
  by code_simp

lemma archive_bad_rewards_GetBlock5:
  "GetBlock archive_bad_rewards 5 = Inr block5"
  by code_simp

lemma archive_bad_frame_parse5:
  "parseGetBlockRequest archive_bad_frame (Params request5) = Inr (Inr (Some \<lparr>Slot = 5\<rparr>))"
  by code_simp

lemma archive_bad_frame_GetBlock5:
  "GetBlock archive_bad_frame 5 = Inr block5"
  by code_simp

lemma archive_legacy_rewards_parse5:
  "parseGetBlockRequest archive_legacy_rewards (Params request5) = Inr (Inr (Some \<lparr>Slot = 5\<rparr>))"
  by code_simp

lemma archive_legacy_rewards_GetBlock5:
  "GetBlock archive_legacy_rewards 5 = Inr block5"
  by code_simp

lemma archive_no_rewards_key_parse5:
  "parseGetBlockRequest archive_no_rewards_key (Params request5) = Inr (Inr (Some \<lparr>Slot = 5\<rparr>))"
  by code_simp

lemma archive_no_rewards_key_GetBlock5:
  "GetBlock archive_no_rewards_key 5 = Inr block5"
  by code_simp

lemma archive_entries5:
  "GetEntryByCid archive (Cid ''E1'') = Inr entry1"
  "GetEntryByCid archive (Cid ''E2'') = Inr entry2"
  by code_simp+

lemma archive_bad_rewards_entries5:
  "GetEntryByCid archive_bad_rewards (Cid ''E1'') = Inr entry1"
  "GetEntryByCid archive_bad_rewards (Cid ''E2'') = Inr entry2"
  by code_simp+

lemma archive_bad_frame_entries5:
  "GetEntryByCid archive_bad_frame (Cid ''E1'') = Inr entry1"
  "GetEntryByCid archive_bad_frame (Cid ''E2'') = Inr entry2"
  by code_simp+

lemma archive_legacy_rewards_entries5:
  "GetEntryByCid archive_legacy_rewards (Cid ''E1'') = Inr entry1"
  "GetEntryByCid archive_legacy_rewards (Cid ''E2'') = Inr entry2"
  by code_simp+







lemma archive_parse4:
  "parseGetBlockRequest archive (Params request4) = Inr (Inr (Some \<lparr>Slot = 4\<rparr>))"
  by code_simp

lemma archive_GetBlock4:
  "GetBlock archive 4 = Inr block4"
  by code_simp

lemma archive_getBlock4:
  "getBlock archive request4 = Replied response4"
  by code_simp

lemma archive_getBlock5:
  "getBlock archive request5 = Replied response5"
  by code_simp

section \<open>The response fields\<close>

text \<open>
  C8. When \<^verbatim>\<open>getBlock\<close> replies with a response, the request named a slot whose
  block was found and decoded; \<open>ParentSlot\<close> is the block's \<open>Parent_slot\<close>
  (converted to \<^verbatim>\<open>uint64\<close>, which keeps every value from 0 below \<open>2 ^ 64\<close>), and
  \<open>Blockhash\<close> is the string form (base58) of the hash of the last entry of the
  block's entries.
\<close>

theorem getBlock_parentSlot_and_blockhash:
  assumes "getBlock ser req = Replied r"
  shows "\<exists>p block.
     parseGetBlockRequest ser (Params req) = Inr (Inr (Some p))
     \<and> GetBlock ser (Slot p) = Inr block
     \<and> ParentSlot r = word_of_int (Parent_slot (Block_Meta block))
     \<and> (0 \<le> Parent_slot (Block_Meta block) \<and> Parent_slot (Block_Meta block) < 2 ^ 64
          \<longrightarrow> uint (ParentSlot r) = Parent_slot (Block_Meta block))
     \<and> (Block_Entries block \<noteq> [] \<longrightarrow>
          (\<exists>e. GetEntryByCid ser (last (Block_Entries block)) = Inr e
               \<and> Blockhash r = Hash_String ser (HashFromBytes ser (Entry_Hash e))))"
proof -
  from getBlock_Replied_stages [OF assms] obtain p block nodes h where
    p: "parseGetBlockRequest ser (Params req) = Inr (Inr (Some p))" and
    block: "GetBlock ser (Slot p) = Inr block" and
    entries: "getEntries ser (int (length (Block_Entries block))) 0 (Block_Entries block)
                ([], zero_Hash) = Inr (nodes, h)" and
    asm: "assembleBlock ser block nodes h = Replied r"
    by blast
  from assembleBlock_Replied [OF asm] have
    ps: "ParentSlot r = word_of_int (Parent_slot (Block_Meta block))" and
    bh: "Blockhash r = Hash_String ser h"
    by auto
  have range: "0 \<le> Parent_slot (Block_Meta block) \<and> Parent_slot (Block_Meta block) < 2 ^ 64
      \<longrightarrow> uint (ParentSlot r) = Parent_slot (Block_Meta block)"
    by (simp add: ps uint_word_of_int)
  from getEntries_lastEntryHash [OF entries] have
    "Block_Entries block \<noteq> [] \<longrightarrow>
       (\<exists>e. GetEntryByCid ser (last (Block_Entries block)) = Inr e
            \<and> h = HashFromBytes ser (Entry_Hash e))"
    by simp
  with p block ps bh range show ?thesis
    by auto
qed

theorem getBlock_parentSlot_and_blockhash_witness:
  "getBlock archive request5 = Replied response5
   \<and> GetBlock archive 5 = Inr block5
   \<and> uint (ParentSlot response5) = Parent_slot (Block_Meta block5)
   \<and> GetEntryByCid archive (last (Block_Entries block5)) = Inr entry2
   \<and> Blockhash response5 = Hash_String archive (HashFromBytes archive (Entry_Hash entry2))"
proof -
  from getBlock_parentSlot_and_blockhash [OF archive_getBlock5] obtain p block where
    p: "parseGetBlockRequest archive (Params request5) = Inr (Inr (Some p))" and
    block: "GetBlock archive (Slot p) = Inr block" and
    range: "0 \<le> Parent_slot (Block_Meta block) \<and> Parent_slot (Block_Meta block) < 2 ^ 64
              \<longrightarrow> uint (ParentSlot response5) = Parent_slot (Block_Meta block)" and
    hash: "Block_Entries block \<noteq> [] \<longrightarrow>
             (\<exists>e. GetEntryByCid archive (last (Block_Entries block)) = Inr e
                  \<and> Blockhash response5 = Hash_String archive (HashFromBytes archive (Entry_Hash e)))"
    by blast
  from p archive_parse5 have "p = \<lparr>Slot = 5\<rparr>"
    by simp
  then have "Slot p = 5"
    by simp
  with block archive_GetBlock5 have b: "block = block5"
    by simp
  have last: "GetEntryByCid archive (last (Block_Entries block5)) = Inr entry2"
    by (simp add: block5_def archive_entries5)
  have "Block_Entries block5 \<noteq> []"
    by (simp add: block5_def)
  with hash b last
  have bh: "Blockhash response5 = Hash_String archive (HashFromBytes archive (Entry_Hash entry2))"
    by auto
  have "0 \<le> Parent_slot (Block_Meta block5) \<and> Parent_slot (Block_Meta block5) < 2 ^ 64"
    by (simp add: block5_def)
  with range b have "uint (ParentSlot response5) = Parent_slot (Block_Meta block5)"
    by simp
  with bh last archive_getBlock5 archive_GetBlock5 show ?thesis
    by simp
qed

section \<open>Failures of the rewards\<close>

text \<open>
  \<^verbatim>\<open>DummyCID\<close> is read by the rewards block only: with any other value for it the
  other stages run as before, and when the rewards block leaves \<^verbatim>\<open>rewards\<close> nil the
  handler runs as it does for a block whose rewards link is the dummy CID.
\<close>

lemma GetNodeByCid_DummyCID [simp]:
  "GetNodeByCid (ser\<lparr>DummyCID := d\<rparr>) c = GetNodeByCid ser c"
  by (simp add: GetNodeByCid_def GetNodeByOffset_def cong: sum.case_cong option.case_cong if_cong prod.case_cong list.case_cong)

lemma GetBlock_DummyCID [simp]:
  "GetBlock (ser\<lparr>DummyCID := d\<rparr>) slot = GetBlock ser slot"
  by (simp add: GetBlock_def cong: sum.case_cong option.case_cong if_cong prod.case_cong list.case_cong)

lemma GetEntryByCid_DummyCID [simp]:
  "GetEntryByCid (ser\<lparr>DummyCID := d\<rparr>) c = GetEntryByCid ser c"
  by (simp add: GetEntryByCid_def cong: sum.case_cong option.case_cong if_cong prod.case_cong list.case_cong)

lemma GetTransactionByCid_DummyCID [simp]:
  "GetTransactionByCid (ser\<lparr>DummyCID := d\<rparr>) c = GetTransactionByCid ser c"
  by (simp add: GetTransactionByCid_def cong: sum.case_cong option.case_cong if_cong prod.case_cong list.case_cong)

lemma GetDataFrameByCid_DummyCID [simp]:
  "GetDataFrameByCid (ser\<lparr>DummyCID := d\<rparr>) = GetDataFrameByCid ser"
  by (rule ext) (simp add: GetDataFrameByCid_def cong: sum.case_cong)

lemma parseGetBlockRequest_DummyCID [simp]:
  "parseGetBlockRequest (ser\<lparr>DummyCID := d\<rparr>) raw = parseGetBlockRequest ser raw"
  by (simp add: parseGetBlockRequest_def cong: sum.case_cong option.case_cong if_cong prod.case_cong list.case_cong)

lemma appendTransactionNodes_DummyCID [simp]:
  "appendTransactionNodes (ser\<lparr>DummyCID := d\<rparr>) txs nodes = appendTransactionNodes ser txs nodes"
  by (induction txs arbitrary: nodes) (simp_all cong: sum.case_cong option.case_cong if_cong prod.case_cong)

lemma getEntries_DummyCID [simp]:
  "getEntries (ser\<lparr>DummyCID := d\<rparr>) n i cs st = getEntries ser n i cs st"
proof (induction cs arbitrary: i st)
  case Nil
  show ?case by simp
next
  case (Cons c cs)
  obtain nodes h where "st = (nodes, h)"
    by (cases st)
  with Cons show ?case
    by (simp cong: sum.case_cong if_cong)
qed

lemma parseTransactionAndMetaFromNode_DummyCID [simp]:
  "parseTransactionAndMetaFromNode (ser\<lparr>DummyCID := d\<rparr>) g node
     = parseTransactionAndMetaFromNode ser g node"
  by (simp add: parseTransactionAndMetaFromNode_def cong: sum.case_cong option.case_cong if_cong prod.case_cong list.case_cong)

lemma transactionResponses_DummyCID [simp]:
  "transactionResponses (ser\<lparr>DummyCID := d\<rparr>) nodes = transactionResponses ser nodes"
  by (induction nodes) (simp_all cong: sum.case_cong option.case_cong if_cong prod.case_cong)

lemma previousBlockhash_DummyCID [simp]:
  "previousBlockhash (ser\<lparr>DummyCID := d\<rparr>) block = previousBlockhash ser block"
  by (simp add: previousBlockhash_def cong: sum.case_cong option.case_cong if_cong prod.case_cong list.case_cong)

lemma blockRewards_dummy:
  "blockRewards (ser\<lparr>DummyCID := Block_Rewards block\<rparr>) block = Inr JNull"
  by (simp add: blockRewards_def cong: sum.case_cong option.case_cong if_cong prod.case_cong list.case_cong)

lemma assembleBlock_null_rewards:
  "blockRewards ser block = Inr JNull \<Longrightarrow>
   assembleBlock (ser\<lparr>DummyCID := Block_Rewards block\<rparr>) block nodes h
     = assembleBlock ser block nodes h"
  by (simp add: assembleBlock_def blockRewards_dummy cong: sum.case_cong option.case_cong if_cong prod.case_cong list.case_cong)

lemma getBlock_null_rewards:
  assumes "parseGetBlockRequest ser (Params req) = Inr (Inr (Some p))"
    and "GetBlock ser (Slot p) = Inr block"
    and "blockRewards ser block = Inr JNull"
  shows "getBlock (ser\<lparr>DummyCID := Block_Rewards block\<rparr>) req = getBlock ser req"
proof (cases "getEntries ser (int (length (Block_Entries block))) 0 (Block_Entries block)
                ([], zero_Hash)")
  case (Inl err)
  then have fails: "isl (getEntries ser (int (length (Block_Entries block))) 0
                      (Block_Entries block) ([], zero_Hash))"
    by simp
  let ?ser = "ser\<lparr>DummyCID := Block_Rewards block\<rparr>"
  have "getBlock ?ser req = RepliedWithError CodeInternalError ''Internal error''"
    by (rule getBlock_entries_fail [where p = p and block = block])
       (simp_all add: assms fails)
  with getBlock_entries_fail [OF assms(1,2) fails] show ?thesis
    by simp
next
  case (Inr st)
  obtain nodes h where st: "st = (nodes, h)"
    by (cases st)
  let ?ser = "ser\<lparr>DummyCID := Block_Rewards block\<rparr>"
  have "getBlock ?ser req = assembleBlock ?ser block nodes h"
    by (rule getBlock_entries_ok [where p = p]) (simp_all add: assms Inr st)
  with getBlock_entries_ok [OF assms(1,2) Inr [unfolded st]]
    assembleBlock_null_rewards [OF assms(3)]
  show ?thesis
    by simp
qed

lemma getBlock_Replied_Rewards:
  assumes "parseGetBlockRequest ser (Params req) = Inr (Inr (Some p))"
    and "GetBlock ser (Slot p) = Inr block"
    and "blockRewards ser block = Inr rewards"
    and "getBlock ser req = Replied r"
  shows "Rewards r = rewards"
proof -
  from getBlock_Replied_stages [OF assms(4)] assms(1,2) obtain nodes h where
    "assembleBlock ser block nodes h = Replied r"
    by auto
  from assembleBlock_Replied [OF this] assms(3) show ?thesis
    by auto
qed

text \<open>
  C7, as the code has it. When the JSON object made from the parsed rewards has no
  \<open>rewards\<close> member, the absence is logged and the rewards stay nil: the handler goes
  on exactly as for a block without rewards, and a response has null rewards.
\<close>

theorem getBlock_missing_rewards_key:
  assumes "parseGetBlockRequest ser (Params req) = Inr (Inr (Some p))"
    and "GetBlock ser (Slot p) = Inr block"
    and "Block_Rewards block \<noteq> DummyCID ser"
    and "GetRewardsByCid ser (Block_Rewards block) = Inr rewardsNode"
    and "reassemble (GetDataFrameByCid ser) (Rewards_Data rewardsNode) = Inr buf"
    and "decompressZstd ser buf = Inr uncompressedRewards"
    and "ParseRewards ser uncompressedRewards = Inr actualRewards"
    and "json_Marshal ser actualRewards = Inr encoded"
    and "json_Unmarshal_map ser encoded = Inr m"
    and "map_of m ''rewards'' = None"
  shows "blockRewards ser block = Inr JNull
     \<and> getBlock ser req = getBlock (ser\<lparr>DummyCID := Block_Rewards block\<rparr>) req
     \<and> (\<forall>r. getBlock ser req = Replied r \<longrightarrow> Rewards r = JNull)"
proof -
  have rewards: "blockRewards ser block = Inr JNull"
    using assms(3-10) by (simp add: blockRewards_def)
  from getBlock_null_rewards [OF assms(1,2) rewards]
    getBlock_Replied_Rewards [OF assms(1,2) rewards] rewards
  show ?thesis
    by simp
qed

theorem getBlock_missing_rewards_key_witness:
  "json_Unmarshal_map archive_no_rewards_key ''json:parsed'' = Inr []
   \<and> blockRewards archive_no_rewards_key block5 = Inr JNull
   \<and> getBlock archive_no_rewards_key request5
       = getBlock (archive_no_rewards_key\<lparr>DummyCID := Block_Rewards block5\<rparr>) request5"
proof -
  let ?ser = archive_no_rewards_key
  have link: "Block_Rewards block5 \<noteq> DummyCID ?ser"
    by code_simp
  have node: "GetRewardsByCid ?ser (Block_Rewards block5) = Inr rewards5"
    by code_simp
  have frames: "reassemble (GetDataFrameByCid ?ser) (Rewards_Data rewards5) = Inr ''zhead-tail''"
    by code_simp
  have zstd: "decompressZstd ?ser ''zhead-tail'' = Inr ''rewards-protobuf''"
    by code_simp
  have parsed: "ParseRewards ?ser ''rewards-protobuf'' = Inr ''parsed''"
    by code_simp
  have encoded: "json_Marshal ?ser ''parsed'' = Inr ''json:parsed''"
    by code_simp
  have decoded: "json_Unmarshal_map ?ser ''json:parsed'' = Inr []"
    by code_simp
  have absent: "map_of ([] :: (string \<times> json) list) ''rewards'' = None"
    by simp
  from getBlock_missing_rewards_key
    [OF archive_no_rewards_key_parse5 _ link node frames zstd parsed encoded decoded absent]
    archive_no_rewards_key_GetBlock5 decoded
  show ?thesis
    by simp
qed

text \<open>
  C7, as stated, fails: the request for a block whose parsed rewards have no \<open>rewards\<close>
  member is answered with a response, with null rewards.
\<close>

theorem getBlock_missing_rewards_key_counterexample:
  "json_Unmarshal_map archive_no_rewards_key ''json:parsed'' = Inr []
   \<and> getBlock archive_no_rewards_key request5 = Replied (response5\<lparr>Rewards := JNull\<rparr>)"
  by code_simp

section \<open>Which failures fail the request\<close>

lemma appendTransactionNodes_decodable:
  "appendTransactionNodes ser txs nodes = nodes @ decodableTransactions ser txs"
  by (induction txs arbitrary: nodes) (auto simp: decodableTransactions_def split: sum.splits)

lemma getEntries_all_entries_decoded:
  "\<forall>c\<in>set cs. \<not> isl (GetEntryByCid ser c) \<Longrightarrow>
   \<exists>h'. getEntries ser n i cs (nodes, h)
     = Inr (nodes @ concat (map (\<lambda>c. decodableTransactions ser
                                        (Entry_Transactions (projr (GetEntryByCid ser c)))) cs),
            h')"
proof (induction cs arbitrary: i nodes h)
  case Nil
  show ?case by simp
next
  case (Cons c cs)
  from Cons.prems obtain e where e: "GetEntryByCid ser c = Inr e"
    by (cases "GetEntryByCid ser c") simp_all
  from Cons.prems have rest: "\<forall>c\<in>set cs. \<not> isl (GetEntryByCid ser c)"
    by simp
  let ?nodes = "nodes @ decodableTransactions ser (Entry_Transactions e)"
  let ?h = "if i = n - 1 then HashFromBytes ser (Entry_Hash e) else h"
  from Cons.IH [OF rest, of "i + 1" ?nodes ?h] obtain h' where
    "getEntries ser n (i + 1) cs (?nodes, ?h)
       = Inr (?nodes @ concat (map (\<lambda>c. decodableTransactions ser
                                         (Entry_Transactions (projr (GetEntryByCid ser c)))) cs),
              h')" ..
  with e have "getEntries ser n i (c # cs) (nodes, h)
       = Inr (nodes @ concat (map (\<lambda>c. decodableTransactions ser
                                        (Entry_Transactions (projr (GetEntryByCid ser c))))
                              (c # cs)),
              h')"
    by (simp add: appendTransactionNodes_decodable)
  then show ?case ..
qed

lemma getEntries_entry_fails:
  "\<exists>c\<in>set cs. isl (GetEntryByCid ser c) \<Longrightarrow> isl (getEntries ser n i cs st)"
proof (induction cs arbitrary: i st)
  case Nil
  then show ?case by simp
next
  case (Cons c cs)
  obtain nodes h where st: "st = (nodes, h)"
    by (cases st)
  show ?case
  proof (cases "GetEntryByCid ser c")
    case (Inl err)
    with st show ?thesis by simp
  next
    case (Inr e)
    with Cons.prems have "\<exists>c\<in>set cs. isl (GetEntryByCid ser c)"
      by auto
    from Cons.IH [OF this] Inr st show ?thesis
      by simp
  qed
qed

lemma blockRewards_fetch_fails:
  "Block_Rewards block \<noteq> DummyCID ser \<Longrightarrow> isl (GetRewardsByCid ser (Block_Rewards block)) \<Longrightarrow>
   blockRewards ser block = Inl (RepliedWithError CodeInternalError ''Internal error'')"
  by (cases "GetRewardsByCid ser (Block_Rewards block)") (simp_all add: blockRewards_def)

lemma blockRewards_frames_fail:
  "Block_Rewards block \<noteq> DummyCID ser \<Longrightarrow>
   GetRewardsByCid ser (Block_Rewards block) = Inr rewardsNode \<Longrightarrow>
   isl (reassemble (GetDataFrameByCid ser) (Rewards_Data rewardsNode)) \<Longrightarrow>
   blockRewards ser block = Inl (RepliedWithError CodeInternalError ''Internal error'')"
  by (cases "reassemble (GetDataFrameByCid ser) (Rewards_Data rewardsNode)")
     (simp_all add: blockRewards_def)

lemma blockRewards_parse_fails:
  "Block_Rewards block \<noteq> DummyCID ser \<Longrightarrow>
   GetRewardsByCid ser (Block_Rewards block) = Inr rewardsNode \<Longrightarrow>
   reassemble (GetDataFrameByCid ser) (Rewards_Data rewardsNode) = Inr buf \<Longrightarrow>
   decompressZstd ser buf = Inr uncompressedRewards \<Longrightarrow>
   isl (ParseRewards ser uncompressedRewards) \<Longrightarrow>
   blockRewards ser block = Inr JNull"
  by (cases "ParseRewards ser uncompressedRewards") (simp_all add: blockRewards_def)

lemma assembleBlock_rewards_end:
  "blockRewards ser block = Inl out \<Longrightarrow> assembleBlock ser block nodes h = out"
  by (simp add: assembleBlock_def)

text \<open>
  C2, as the code has it. For a request whose block was fetched: an entry that cannot be
  fetched or decoded ends the handler with the Internal error reply. When all entries
  decode, the handler goes on with the transaction nodes that decode (here in the order
  of the entries), whatever the number of those that do not; then a rewards node that
  cannot be fetched or decoded, and a rewards frame that cannot be fetched, end it with
  the Internal error reply, while rewards that the reward parser rejects leave the
  rewards nil and the handler goes on as for a block without rewards.
\<close>

theorem getBlock_failure_handling:
  assumes "parseGetBlockRequest ser (Params req) = Inr (Inr (Some p))"
    and "GetBlock ser (Slot p) = Inr block"
  shows
    "((\<exists>c\<in>set (Block_Entries block). isl (GetEntryByCid ser c)) \<longrightarrow>
        getBlock ser req = RepliedWithError CodeInternalError ''Internal error'')
     \<and> ((\<forall>c\<in>set (Block_Entries block). \<not> isl (GetEntryByCid ser c)) \<longrightarrow>
          (\<exists>h. getBlock ser req
             = assembleBlock ser block
                 (concat (map (\<lambda>c. decodableTransactions ser
                                      (Entry_Transactions (projr (GetEntryByCid ser c))))
                            (Block_Entries block))) h)
          \<and> (Block_Rewards block \<noteq> DummyCID ser \<longrightarrow>
               (isl (GetRewardsByCid ser (Block_Rewards block)) \<longrightarrow>
                  getBlock ser req = RepliedWithError CodeInternalError ''Internal error'')
               \<and> (\<forall>rewardsNode.
                    GetRewardsByCid ser (Block_Rewards block) = Inr rewardsNode \<longrightarrow>
                    (isl (reassemble (GetDataFrameByCid ser) (Rewards_Data rewardsNode)) \<longrightarrow>
                       getBlock ser req = RepliedWithError CodeInternalError ''Internal error'')
                    \<and> (\<forall>buf uncompressedRewards.
                         reassemble (GetDataFrameByCid ser) (Rewards_Data rewardsNode) = Inr buf
                         \<and> decompressZstd ser buf = Inr uncompressedRewards
                         \<and> isl (ParseRewards ser uncompressedRewards) \<longrightarrow>
                         getBlock ser req
                           = getBlock (ser\<lparr>DummyCID := Block_Rewards block\<rparr>) req))))"
proof -
  let ?entries = "getEntries ser (int (length (Block_Entries block))) 0 (Block_Entries block)
                    ([], zero_Hash)"
  let ?nodes = "concat (map (\<lambda>c. decodableTransactions ser
                                   (Entry_Transactions (projr (GetEntryByCid ser c))))
                         (Block_Entries block))"
  let ?internal = "RepliedWithError CodeInternalError ''Internal error''
                     :: 'b GetBlockResponse outcome"
  have entry_fails: "getBlock ser req = ?internal"
    if "\<exists>c\<in>set (Block_Entries block). isl (GetEntryByCid ser c)"
    using getBlock_entries_fail [OF assms getEntries_entry_fails [OF that]] .
  have entries_ok: "\<exists>h. ?entries = Inr (?nodes, h)"
    if ok: "\<forall>c\<in>set (Block_Entries block). \<not> isl (GetEntryByCid ser c)"
    using getEntries_all_entries_decoded [OF ok, of "int (length (Block_Entries block))" 0 "[]" zero_Hash]
    by simp
  have assembled: "\<exists>h. getBlock ser req = assembleBlock ser block ?nodes h"
    if ok: "\<forall>c\<in>set (Block_Entries block). \<not> isl (GetEntryByCid ser c)"
  proof -
    from entries_ok [OF ok] obtain h where "?entries = Inr (?nodes, h)" ..
    from getBlock_entries_ok [OF assms this] show ?thesis ..
  qed
  have rewards_end: "getBlock ser req = out"
    if ok: "\<forall>c\<in>set (Block_Entries block). \<not> isl (GetEntryByCid ser c)"
      and "blockRewards ser block = Inl out" for out
  proof -
    from assembled [OF ok] obtain h where "getBlock ser req = assembleBlock ser block ?nodes h" ..
    with assembleBlock_rewards_end [OF that(2)] show ?thesis
      by simp
  qed
  have fetch: "getBlock ser req = ?internal"
    if "\<forall>c\<in>set (Block_Entries block). \<not> isl (GetEntryByCid ser c)"
      and "Block_Rewards block \<noteq> DummyCID ser"
      and "isl (GetRewardsByCid ser (Block_Rewards block))"
    using rewards_end [OF that(1) blockRewards_fetch_fails [OF that(2,3)]] .
  have frames: "getBlock ser req = ?internal"
    if "\<forall>c\<in>set (Block_Entries block). \<not> isl (GetEntryByCid ser c)"
      and "Block_Rewards block \<noteq> DummyCID ser"
      and "GetRewardsByCid ser (Block_Rewards block) = Inr rewardsNode"
      and "isl (reassemble (GetDataFrameByCid ser) (Rewards_Data rewardsNode))"
    for rewardsNode
    using rewards_end [OF that(1) blockRewards_frames_fail [OF that(2,3,4)]] .
  have parse: "getBlock ser req = getBlock (ser\<lparr>DummyCID := Block_Rewards block\<rparr>) req"
    if "Block_Rewards block \<noteq> DummyCID ser"
      and "GetRewardsByCid ser (Block_Rewards block) = Inr rewardsNode"
      and "reassemble (GetDataFrameByCid ser) (Rewards_Data rewardsNode) = Inr buf"
      and "decompressZstd ser buf = Inr uncompressedRewards"
      and "isl (ParseRewards ser uncompressedRewards)"
    for rewardsNode buf uncompressedRewards
    using getBlock_null_rewards [OF assms blockRewards_parse_fails [OF that]] by simp
  from entry_fails assembled fetch frames parse show ?thesis
    by blast
qed

theorem getBlock_failure_handling_witness:
  "getBlock archive_bad_entry request5 = RepliedWithError CodeInternalError ''Internal error''
   \<and> isl (GetTransactionByCid archive (Cid ''T2''))
   \<and> (\<exists>h. getBlock archive request5
             = assembleBlock archive block5 [transaction1, transaction3] h)
   \<and> getBlock archive_bad_rewards request5
       = RepliedWithError CodeInternalError ''Internal error''
   \<and> getBlock archive_bad_frame request5
       = RepliedWithError CodeInternalError ''Internal error''
   \<and> getBlock archive_legacy_rewards request5
       = getBlock (archive_legacy_rewards\<lparr>DummyCID := Block_Rewards block5\<rparr>) request5"
proof -
  have bad_entry: "\<exists>c\<in>set (Block_Entries block5). isl (GetEntryByCid archive_bad_entry c)"
    by code_simp
  from getBlock_failure_handling [OF archive_bad_entry_parse5, of block5]
    archive_bad_entry_GetBlock5 bad_entry
  have entry: "getBlock archive_bad_entry request5
      = RepliedWithError CodeInternalError ''Internal error''"
    by simp
  have skipped: "isl (GetTransactionByCid archive (Cid ''T2''))"
    by code_simp
  have entries: "\<forall>c\<in>set (Block_Entries block5). \<not> isl (GetEntryByCid archive c)"
    by (simp add: block5_def archive_entries5)
  have decodable:
    "concat (map (\<lambda>c. decodableTransactions archive
                        (Entry_Transactions (projr (GetEntryByCid archive c))))
               (Block_Entries block5))
       = [transaction1, transaction3]"
    by code_simp
  from getBlock_failure_handling [OF archive_parse5, of block5] archive_GetBlock5 entries
  have "\<exists>h. getBlock archive request5
      = assembleBlock archive block5
          (concat (map (\<lambda>c. decodableTransactions archive
                              (Entry_Transactions (projr (GetEntryByCid archive c))))
                     (Block_Entries block5))) h"
    by simp
  then have assembled:
    "\<exists>h. getBlock archive request5 = assembleBlock archive block5 [transaction1, transaction3] h"
    by (simp only: decodable)
  have entries_r: "\<forall>c\<in>set (Block_Entries block5). \<not> isl (GetEntryByCid archive_bad_rewards c)"
    by (simp add: block5_def archive_bad_rewards_entries5)
  have link_r: "Block_Rewards block5 \<noteq> DummyCID archive_bad_rewards"
    by code_simp
  have fetch_r: "isl (GetRewardsByCid archive_bad_rewards (Block_Rewards block5))"
    by code_simp
  from getBlock_failure_handling [OF archive_bad_rewards_parse5, of block5]
    archive_bad_rewards_GetBlock5 entries_r link_r fetch_r
  have rewards: "getBlock archive_bad_rewards request5
      = RepliedWithError CodeInternalError ''Internal error''"
    by simp
  have entries_f: "\<forall>c\<in>set (Block_Entries block5). \<not> isl (GetEntryByCid archive_bad_frame c)"
    by (simp add: block5_def archive_bad_frame_entries5)
  have link_f: "Block_Rewards block5 \<noteq> DummyCID archive_bad_frame"
    by code_simp
  have node_f: "GetRewardsByCid archive_bad_frame (Block_Rewards block5) = Inr rewards5"
    by code_simp
  have frames_f: "isl (reassemble (GetDataFrameByCid archive_bad_frame) (Rewards_Data rewards5))"
    by code_simp
  from getBlock_failure_handling [OF archive_bad_frame_parse5, of block5]
    archive_bad_frame_GetBlock5 entries_f link_f node_f frames_f
  have frame: "getBlock archive_bad_frame request5
      = RepliedWithError CodeInternalError ''Internal error''"
    by simp
  have entries_l:
    "\<forall>c\<in>set (Block_Entries block5). \<not> isl (GetEntryByCid archive_legacy_rewards c)"
    by (simp add: block5_def archive_legacy_rewards_entries5)
  have link_l: "Block_Rewards block5 \<noteq> DummyCID archive_legacy_rewards"
    by code_simp
  have node_l: "GetRewardsByCid archive_legacy_rewards (Block_Rewards block5) = Inr rewards5"
    by code_simp
  have frames_l: "reassemble (GetDataFrameByCid archive_legacy_rewards) (Rewards_Data rewards5)
      = Inr ''zhead-tail''"
    by code_simp
  have zstd_l: "decompressZstd archive_legacy_rewards ''zhead-tail'' = Inr ''rewards-protobuf''"
    by code_simp
  have parse_l: "isl (ParseRewards archive_legacy_rewards ''rewards-protobuf'')"
    by code_simp
  from getBlock_failure_handling [OF archive_legacy_rewards_parse5, of block5]
    archive_legacy_rewards_GetBlock5 entries_l link_l node_l frames_l zstd_l parse_l
  have legacy: "getBlock archive_legacy_rewards request5
      = getBlock (archive_legacy_rewards\<lparr>DummyCID := Block_Rewards block5\<rparr>) request5"
    by simp
  from entry skipped assembled rewards frame legacy show ?thesis
    by blast
qed

text \<open>
  C2, as stated, fails: rewards that the reward parser rejects do not fail the request;
  it is answered with a response, with null rewards.
\<close>

theorem getBlock_rewards_not_protobuf_counterexample:
  "ParseRewards archive_legacy_rewards ''rewards-protobuf'' = Inl (Error ''not protobuf'')
   \<and> getBlock archive_legacy_rewards request5 = Replied (response5\<lparr>Rewards := JNull\<rparr>)"
  by code_simp

section \<open>Error replies\<close>














section \<open>Key rewriting\<close>






lemma MapToCamelCase_loop_map_of:
  "map_of (MapToCamelCase_loop pc m newMap)
     = map_of newMap
         ++ map_of (rev (map (\<lambda>(k, v). (toLowerCamelCase pc k, camelValue pc v)) m))"
proof (induction m arbitrary: newMap)
  case Nil
  show ?case by simp
next
  case (Cons kv m)
  obtain k v where kv: "kv = (k, v)"
    by (cases kv)
  show ?case
    by (rule ext) (simp add: kv Cons.IH update_conv' map_add_def split: option.splits)
qed

lemma map_of_unique_entry:
  "(a, b) \<in> set xs \<Longrightarrow> \<forall>(a', b')\<in>set xs. a' = a \<longrightarrow> b' = b \<Longrightarrow> map_of xs a = Some b"
  by (induction xs) auto




lemma MapToCamelCase_entry:
  assumes "(k, v) \<in> set m"
    and "\<forall>(k', v')\<in>set m. toLowerCamelCase pc k' = toLowerCamelCase pc k \<longrightarrow> v' = v"
  shows "map_of (MapToCamelCase pc m) (toLowerCamelCase pc k) = Some (camelValue pc v)"
proof -
  let ?f = "\<lambda>(k, v). (toLowerCamelCase pc k, camelValue pc v)"
  have "(toLowerCamelCase pc k, camelValue pc v) \<in> set (rev (map ?f m))"
    using assms(1) by force
  moreover have "\<forall>(a', b')\<in>set (rev (map ?f m)).
      a' = toLowerCamelCase pc k \<longrightarrow> b' = camelValue pc v"
    using assms(2) by auto
  ultimately have "map_of (rev (map ?f m)) (toLowerCamelCase pc k) = Some (camelValue pc v)"
    by (rule map_of_unique_entry)
  then show ?thesis
    by (simp add: MapToCamelCase_def MapToCamelCase_loop_map_of)
qed




section \<open>The block time that is sent\<close>

lemma float64_of_int_exact:
  assumes "0 \<le> n" and "n < 2 ^ 53"
  shows "float64_of_int n = n"
proof -
  from assms(2) have "bitlen n \<le> 53"
    by (simp add: bitlen_le_iff_power)
  then have "nat (bitlen n - 53) = 0"
    by simp
  then show ?thesis
    by (simp add: float64_of_int_def)
qed

lemma half_unit_up:
  fixes E R d :: int
  shows "d = E - R \<Longrightarrow> E \<le> 2 * R \<Longrightarrow> R < E \<Longrightarrow> 2 * \<bar>d\<bar> \<le> E"
  by (simp add: abs_if)

lemma half_unit_down:
  fixes E R d :: int
  shows "d = - R \<Longrightarrow> 2 * R \<le> E \<Longrightarrow> 0 \<le> R \<Longrightarrow> 2 * \<bar>d\<bar> \<le> E"
  by (simp add: abs_if)

lemma float64_of_int_near:
  "2 * \<bar>float64_of_int n - n\<bar> \<le> 2 ^ nat (bitlen n - 53)"
proof -
  let ?e = "nat (bitlen n - 53)"
  let ?q = "n div 2 ^ ?e"
  let ?r = "n mod 2 ^ ?e"
  have n: "n = ?q * 2 ^ ?e + ?r"
    by (rule div_mult_mod_eq [symmetric])
  have r: "0 \<le> ?r" "?r < 2 ^ ?e"
    by simp_all
  show ?thesis
  proof (cases "2 ^ ?e < 2 * ?r \<or> (2 * ?r = 2 ^ ?e \<and> odd ?q)")
    case True
    then have "float64_of_int n = (?q + 1) * 2 ^ ?e"
      by (simp add: float64_of_int_def Let_def)
    then have "float64_of_int n - n = 2 ^ ?e - ?r"
      using n by (simp add: algebra_simps)
    moreover from True have "2 ^ ?e \<le> 2 * ?r"
      by auto
    ultimately show ?thesis
      using r(2) by (rule half_unit_up)
  next
    case False
    then have "float64_of_int n = ?q * 2 ^ ?e"
      by (simp add: float64_of_int_def Let_def)
    then have "float64_of_int n - n = - ?r"
      using n by (simp add: algebra_simps)
    moreover from False have "2 * ?r \<le> 2 ^ ?e"
      by auto
    ultimately show ?thesis
      using r(1) by (rule half_unit_down)
  qed
qed

lemma float64_of_uint64_near:
  fixes t :: uint64
  shows "\<bar>float64_of_int (uint t) - uint t\<bar> \<le> 1024"
proof -
  have "uint t < 2 ^ 64"
    using uint_bounded [of t] by simp
  then have "bitlen (uint t) \<le> 64"
    by (simp add: bitlen_le_iff_power)
  then have "nat (bitlen (uint t) - 53) \<le> 11"
    by simp
  then have "(2::int) ^ nat (bitlen (uint t) - 53) \<le> 2 ^ 11"
    by (rule power_increasing) simp
  with float64_of_int_near [of "uint t"] show ?thesis
    by simp
qed

lemma toMapAny_blockTime:
  "toMapAny metaJSON r = Inr mm \<Longrightarrow>
   map_of mm ''blockTime'' = Some (case BlockTime r of None \<Rightarrow> JNull | Some t \<Rightarrow> json_uint64 t)"
  by (auto simp: toMapAny_def split: sum.splits)

text \<open>
  C10, as the code has it. In every response of \<^verbatim>\<open>getBlock\<close> the field
  \<open>BlockTime\<close> is set, to the block's \<open>Blocktime\<close> modulo \<open>2 ^ 64\<close>. \<^verbatim>\<open>Reply\<close>
  sends the response through \<^verbatim>\<open>toMapAny\<close>: the member \<open>blockTime\<close> is present and is
  a number, the \<^verbatim>\<open>float64\<close> nearest to that value, also after the key rewriting (when
  no other key of the response is rewritten to the key of \<open>blockTime\<close>). The number is
  within 1024 of the value, and equal to it when the value is below \<open>2 ^ 53\<close>: so for
  every \<open>Blocktime\<close> from 0 below \<open>2 ^ 53\<close> the number sent is \<open>Blocktime\<close>.
\<close>

theorem getBlock_blockTime_sent:
  assumes "getBlock ser req = Replied r"
  shows "\<exists>p block t.
     parseGetBlockRequest ser (Params req) = Inr (Inr (Some p))
     \<and> GetBlock ser (Slot p) = Inr block
     \<and> BlockTime r = Some t
     \<and> uint t = Blocktime (Block_Meta block) mod 2 ^ 64
     \<and> (\<forall>mm. toMapAny metaJSON r = Inr mm \<longrightarrow>
           map_of mm ''blockTime'' = Some (JNum (of_int (float64_of_int (uint t))))
           \<and> Reply (toMapAny metaJSON) Marshal pc r (Some (\<lambda>m. m))
               = Marshal (JObj (MapToCamelCase pc mm))
           \<and> ((\<forall>k\<in>fst ` set mm.
                  toLowerCamelCase pc k = toLowerCamelCase pc ''blockTime'' \<longrightarrow> k = ''blockTime'') \<longrightarrow>
                map_of (MapToCamelCase pc mm) (toLowerCamelCase pc ''blockTime'')
                  = Some (JNum (of_int (float64_of_int (uint t))))))
     \<and> \<bar>float64_of_int (uint t) - uint t\<bar> \<le> 1024
     \<and> (uint t < 2 ^ 53 \<longrightarrow> float64_of_int (uint t) = uint t)
     \<and> (0 \<le> Blocktime (Block_Meta block) \<and> Blocktime (Block_Meta block) < 2 ^ 53 \<longrightarrow>
          float64_of_int (uint t) = Blocktime (Block_Meta block))"
proof -
  from getBlock_Replied_stages [OF assms] obtain p block nodes h where
    p: "parseGetBlockRequest ser (Params req) = Inr (Inr (Some p))" and
    block: "GetBlock ser (Slot p) = Inr block" and
    asm: "assembleBlock ser block nodes h = Replied r"
    by blast
  define t :: uint64 where "t = word_of_int (Blocktime (Block_Meta block))"
  from assembleBlock_Replied [OF asm] have set: "BlockTime r = Some t"
    by (auto simp: t_def)
  have modulo: "uint t = Blocktime (Block_Meta block) mod 2 ^ 64"
    by (simp add: t_def uint_word_of_int)
  let ?sent = "JNum (of_int (float64_of_int (uint t)))"
  have inMap: "map_of mm ''blockTime'' = Some ?sent"
    if "toMapAny metaJSON r = Inr mm" for mm
    using toMapAny_blockTime [OF that] set by (simp add: json_uint64_def)
  have reply: "Reply (toMapAny metaJSON) Marshal pc r (Some (\<lambda>m. m))
      = Marshal (JObj (MapToCamelCase pc mm))"
    if "toMapAny metaJSON r = Inr mm" for mm
    using that by (simp add: Reply_def)
  have rewritten: "map_of (MapToCamelCase pc mm) (toLowerCamelCase pc ''blockTime'') = Some ?sent"
    if mm: "toMapAny metaJSON r = Inr mm"
      and only: "\<forall>k\<in>fst ` set mm.
        toLowerCamelCase pc k = toLowerCamelCase pc ''blockTime'' \<longrightarrow> k = ''blockTime''"
    for mm
  proof -
    from inMap [OF mm] have member: "(''blockTime'', ?sent) \<in> set mm"
      by (rule map_of_SomeD)
    have "\<forall>(k', v')\<in>set mm.
        toLowerCamelCase pc k' = toLowerCamelCase pc ''blockTime'' \<longrightarrow> v' = ?sent"
    proof (intro ballI, clarify)
      fix k' v'
      assume entry: "(k', v') \<in> set mm"
        and same: "toLowerCamelCase pc k' = toLowerCamelCase pc ''blockTime''"
      from entry have "k' \<in> fst ` set mm"
        by force
      with only same have "k' = ''blockTime''"
        by blast
      with entry mm show "v' = ?sent"
        by (auto simp: toMapAny_def set json_uint64_def split: sum.splits)
    qed
    from MapToCamelCase_entry [OF member this] show ?thesis
      by simp
  qed
  have near: "\<bar>float64_of_int (uint t) - uint t\<bar> \<le> 1024"
    by (rule float64_of_uint64_near)
  have exact: "float64_of_int (uint t) = uint t" if "uint t < 2 ^ 53"
    using that by (intro float64_of_int_exact) simp_all
  have seconds: "float64_of_int (uint t) = Blocktime (Block_Meta block)"
    if "0 \<le> Blocktime (Block_Meta block) \<and> Blocktime (Block_Meta block) < 2 ^ 53"
  proof -
    from that have "uint t = Blocktime (Block_Meta block)"
      by (simp add: modulo)
    with that exact show ?thesis
      by simp
  qed
  show ?thesis
  proof (intro exI conjI allI impI)
    show "parseGetBlockRequest ser (Params req) = Inr (Inr (Some p))"
      by (rule p)
    show "GetBlock ser (Slot p) = Inr block"
      by (rule block)
    show "BlockTime r = Some t"
      by (rule set)
    show "uint t = Blocktime (Block_Meta block) mod 2 ^ 64"
      by (rule modulo)
    show "\<bar>float64_of_int (uint t) - uint t\<bar> \<le> 1024"
      by (rule near)
  next
    fix mm
    assume "toMapAny metaJSON r = Inr mm"
    then show "map_of mm ''blockTime'' = Some ?sent"
      by (rule inMap)
  next
    fix mm
    assume "toMapAny metaJSON r = Inr mm"
    then show "Reply (toMapAny metaJSON) Marshal pc r (Some (\<lambda>m. m))
      = Marshal (JObj (MapToCamelCase pc mm))"
      by (rule reply)
  next
    fix mm
    assume "toMapAny metaJSON r = Inr mm"
      and "\<forall>k\<in>fst ` set mm.
        toLowerCamelCase pc k = toLowerCamelCase pc ''blockTime'' \<longrightarrow> k = ''blockTime''"
    then show "map_of (MapToCamelCase pc mm) (toLowerCamelCase pc ''blockTime'') = Some ?sent"
      by (rule rewritten)
  next
    assume "uint t < 2 ^ 53"
    then show "float64_of_int (uint t) = uint t"
      by (rule exact)
  next
    assume "0 \<le> Blocktime (Block_Meta block) \<and> Blocktime (Block_Meta block) < 2 ^ 53"
    then show "float64_of_int (uint t) = Blocktime (Block_Meta block)"
      by (rule seconds)
  qed
qed

theorem getBlock_blockTime_sent_witness:
  "getBlock archive request4 = Replied response4
   \<and> Blocktime (Block_Meta block4) = 1600000000
   \<and> BlockTime response4 = Some 1600000000
   \<and> toMapAny (\<lambda>m. Inr (JStr m)) response4 = Inr response4_map
   \<and> map_of response4_map ''blockTime'' = Some (JNum 1600000000)
   \<and> getBlock archive request5 = Replied response5
   \<and> Blocktime (Block_Meta block5) = - 1
   \<and> BlockTime response5 = Some 18446744073709551615
   \<and> toMapAny (\<lambda>m. Inr (JStr m)) response5 = Inr response5_map
   \<and> map_of (MapToCamelCase snakeToPascalCase response5_map) ''blockTime''
       = Some (JNum 18446744073709551616)"
proof -
  let ?metaJSON = "\<lambda>m :: string. Inr (JStr m) :: error + json"
  let ?Marshal = "\<lambda>v :: json. Inr ''{}'' :: error + bytes"
  have map4: "toMapAny ?metaJSON response4 = Inr response4_map"
    by code_simp
  have map5: "toMapAny ?metaJSON response5 = Inr response5_map"
    by code_simp
  have key: "toLowerCamelCase snakeToPascalCase ''blockTime'' = ''blockTime''"
    by code_simp
  have only: "\<forall>k\<in>fst ` set response5_map.
      toLowerCamelCase snakeToPascalCase k = toLowerCamelCase snakeToPascalCase ''blockTime'' \<longrightarrow>
      k = ''blockTime''"
    by code_simp
  have rounded: "float64_of_int 18446744073709551615 = 18446744073709551616"
    by code_simp
  from getBlock_blockTime_sent
    [OF archive_getBlock4, where metaJSON = ?metaJSON and Marshal = ?Marshal
       and pc = snakeToPascalCase]
  obtain p block t where
    p: "parseGetBlockRequest archive (Params request4) = Inr (Inr (Some p))" and
    block: "GetBlock archive (Slot p) = Inr block" and
    t: "BlockTime response4 = Some t" and
    inMap: "\<forall>mm. toMapAny ?metaJSON response4 = Inr mm \<longrightarrow>
              map_of mm ''blockTime'' = Some (JNum (of_int (float64_of_int (uint t))))
              \<and> Reply (toMapAny ?metaJSON) ?Marshal snakeToPascalCase response4 (Some (\<lambda>m. m))
                  = ?Marshal (JObj (MapToCamelCase snakeToPascalCase mm))
              \<and> ((\<forall>k\<in>fst ` set mm.
                     toLowerCamelCase snakeToPascalCase k
                       = toLowerCamelCase snakeToPascalCase ''blockTime'' \<longrightarrow>
                     k = ''blockTime'') \<longrightarrow>
                   map_of (MapToCamelCase snakeToPascalCase mm)
                     (toLowerCamelCase snakeToPascalCase ''blockTime'')
                     = Some (JNum (of_int (float64_of_int (uint t)))))" and
    exact: "0 \<le> Blocktime (Block_Meta block) \<and> Blocktime (Block_Meta block) < 2 ^ 53 \<longrightarrow>
              float64_of_int (uint t) = Blocktime (Block_Meta block)"
    by blast
  from p archive_parse4 have "p = \<lparr>Slot = 4\<rparr>"
    by simp
  then have "Slot p = 4"
    by simp
  with block archive_GetBlock4 have "block = block4"
    by simp
  with exact have "float64_of_int (uint t) = 1600000000"
    by (simp add: block4_def)
  with inMap map4 have sent4: "map_of response4_map ''blockTime'' = Some (JNum 1600000000)"
    by simp
  have time4: "Blocktime (Block_Meta block4) = 1600000000"
    by (simp add: block4_def)
  have set4: "BlockTime response4 = Some 1600000000"
    by (simp add: response4_def)
  from getBlock_blockTime_sent
    [OF archive_getBlock5, where metaJSON = ?metaJSON and Marshal = ?Marshal
       and pc = snakeToPascalCase]
  obtain t' where
    t': "BlockTime response5 = Some t'" and
    inMap': "\<forall>mm. toMapAny ?metaJSON response5 = Inr mm \<longrightarrow>
              map_of mm ''blockTime'' = Some (JNum (of_int (float64_of_int (uint t'))))
              \<and> Reply (toMapAny ?metaJSON) ?Marshal snakeToPascalCase response5 (Some (\<lambda>m. m))
                  = ?Marshal (JObj (MapToCamelCase snakeToPascalCase mm))
              \<and> ((\<forall>k\<in>fst ` set mm.
                     toLowerCamelCase snakeToPascalCase k
                       = toLowerCamelCase snakeToPascalCase ''blockTime'' \<longrightarrow>
                     k = ''blockTime'') \<longrightarrow>
                   map_of (MapToCamelCase snakeToPascalCase mm)
                     (toLowerCamelCase snakeToPascalCase ''blockTime'')
                     = Some (JNum (of_int (float64_of_int (uint t')))))"
    by blast
  have set5: "BlockTime response5 = Some 18446744073709551615"
    by (simp add: response5_def)
  with t' have "uint t' = 18446744073709551615"
    by simp
  with inMap' map5 only key rounded
  have sent5: "map_of (MapToCamelCase snakeToPascalCase response5_map) ''blockTime''
      = Some (JNum 18446744073709551616)"
    by simp
  have time5: "Blocktime (Block_Meta block5) = - 1"
    by (simp add: block5_def)
  from archive_getBlock4 time4 set4 map4 sent4 archive_getBlock5 time5 set5 map5 sent5
  show ?thesis
    by (intro conjI)
qed

text \<open>
  C10, as stated, fails: for the block time \<open>-1\<close> the handler's response holds
  \<open>2 ^ 64 - 1\<close>, and the number that \<^verbatim>\<open>Reply\<close> sends for it is \<open>2 ^ 64\<close>.
\<close>

theorem getBlock_blockTime_rounded_counterexample:
  "getBlock archive request5 = Replied response5
   \<and> Blocktime (Block_Meta block5) = - 1
   \<and> Blocktime (Block_Meta block5) mod 2 ^ 64 = 18446744073709551615
   \<and> toMapAny (\<lambda>m. Inr (JStr m)) response5 = Inr response5_map
   \<and> map_of response5_map ''blockTime'' = Some (JNum 18446744073709551616)
   \<and> JNum 18446744073709551616 \<noteq> JNum 18446744073709551615"
  by code_simp

end
